theory Spec2Isabelle
  imports Main "HOL-Library.Word" "HOL-Library.Sublist"
begin

section \<open>Errors\<close>

text \<open>
  Go errors are values.  \<open>ErrNotFound\<close> is the sentinel \<^verbatim>\<open>cgroups.ErrNotFound\<close>, which the
  sources compare by identity; \<open>Errorf\<close> is an error made by \<^verbatim>\<open>fmt.Errorf\<close> with its
  message; \<open>PathError\<close> is an \<^verbatim>\<open>*os.PathError\<close> (operation, path, errno), what the
  \<^verbatim>\<open>os\<close> and \<^verbatim>\<open>io/ioutil\<close> calls of the sources return.
\<close>

datatype errno =
  EEXIST | ENOENT | ENOTDIR | EISDIR | EACCES | EROFS | EBUSY | ESRCH | EINVAL | ENOSPC | ENOTEMPTY

datatype error = ErrNotFound | Errorf string | PathError string string errno

text \<open>\<^verbatim>\<open>os.IsExist\<close>: the error reports that a file or directory already exists.\<close>

fun IsExist :: "error \<Rightarrow> bool" where
  "IsExist (PathError _ _ en) = (en = EEXIST)"
| "IsExist _ = False"

section \<open>The engine's handler registry\<close>

text \<open>
  \<^verbatim>\<open>var globalHandlers map[string]Handler\<close>, made by \<^verbatim>\<open>init\<close> and therefore never nil.
  A \<^verbatim>\<open>Handler\<close> is a function value; the registry only stores it, so it is a type
  parameter here.
  \<^verbatim>\<open>
  func Register(name string, handler Handler) error {
      _, exists := globalHandlers[name]
      if exists {
          return fmt.Errorf("Can't overwrite global handler for command %s", name)
      }
      globalHandlers[name] = handler
      return nil
  }
  \<close>
  The model takes the global map and returns it with the error.
\<close>

definition Register :: "(string \<rightharpoonup> 'h) \<Rightarrow> string \<Rightarrow> 'h \<Rightarrow> error option \<times> (string \<rightharpoonup> 'h)" where
  "Register globalHandlers name handler =
     (case globalHandlers name of
        Some _ \<Rightarrow> (Some (Errorf (''Can't overwrite global handler for command '' @ name)), globalHandlers)
      | None \<Rightarrow> (None, globalHandlers(name \<mapsto> handler)))"

text \<open>
  \<^verbatim>\<open>type Engine struct { root string; handlers map[string]Handler; hack Hack; id string }\<close>.
  The fields are renamed where the name is taken (\<open>id\<close>, and \<open>root\<close>, which the cgroup
  data below has too).  The \<open>hack\<close> field (type \<^verbatim>\<open>Hack\<close>, declared elsewhere) is not read
  or written by \<^verbatim>\<open>Register\<close> and is left out.  A Go map may be nil (the zero value of
  \<^verbatim>\<open>Engine\<close>): reading a nil map finds nothing, assigning to it panics; \<open>handlers\<close> is
  \<open>None\<close> for the nil map.
\<close>

record 'h Engine =
  eng_root :: string
  handlers :: "(string \<rightharpoonup> 'h) option"
  eng_id :: string

text \<open>A call either returns or panics.\<close>

datatype 'a outcome = Returned 'a | Panic

text \<open>
  \<^verbatim>\<open>
  func (eng *Engine) Register(name string, handler Handler) error {
      eng.Logf("Register(%s) (handlers=%v)", name, eng.handlers)
      _, exists := eng.handlers[name]
      if exists {
          return fmt.Errorf("Can't overwrite handler for command %s", name)
      }
      eng.handlers[name] = handler
      return nil
  }
  \<close>
  \<^verbatim>\<open>Logf\<close> formats a line and prints it on the standard error stream; its results are
  dropped and it touches no field of the engine (a panic in \<^verbatim>\<open>String\<close> is caught by
  \<^verbatim>\<open>fmt\<close> and printed).  The stream is not part of the model.
\<close>

definition Engine_Register :: "'h Engine \<Rightarrow> string \<Rightarrow> 'h \<Rightarrow> (error option \<times> 'h Engine) outcome" where
  "Engine_Register eng name handler =
     (case handlers eng of
        None \<Rightarrow> Panic
      | Some hs \<Rightarrow>
          (case hs name of
             Some _ \<Rightarrow> Returned (Some (Errorf (''Can't overwrite handler for command '' @ name)), eng)
           | None \<Rightarrow> Returned (None, eng\<lparr>handlers := Some (hs(name \<mapsto> handler))\<rparr>)))"

section \<open>Paths: Go's \<^verbatim>\<open>path/filepath\<close> on Unix\<close>

text \<open>
  The sources build every path with \<^verbatim>\<open>filepath.Join\<close> and \<^verbatim>\<open>filepath.Dir\<close> of the Go
  standard library.  Both end in \<^verbatim>\<open>filepath.Clean\<close>, which works on the elements between
  slashes: it drops empty elements and \<^verbatim>\<open>.\<close>, lets \<^verbatim>\<open>..\<close> cancel the element before it
  (at the root it is dropped, at the start of a relative path it is kept), and returns
  \<^verbatim>\<open>.\<close> for an empty result.
\<close>

text \<open>\<^verbatim>\<open>strings.Split(s, "/")\<close>.\<close>

fun split_slash :: "string \<Rightarrow> string list" where
  "split_slash [] = [[]]"
| "split_slash (ch # cs) =
     (if ch = CHR ''/'' then [] # split_slash cs
      else (case split_slash cs of e # es \<Rightarrow> (ch # e) # es | [] \<Rightarrow> [[ch]]))"

text \<open>\<^verbatim>\<open>strings.Join(elems, "/")\<close>.\<close>

fun join_slash :: "string list \<Rightarrow> string" where
  "join_slash [] = []"
| "join_slash [e] = e"
| "join_slash (e # es) = e @ CHR ''/'' # join_slash es"

text \<open>One element of the path read by \<^verbatim>\<open>Clean\<close>; \<open>out\<close> holds the elements written so far.\<close>

definition clean_elem :: "bool \<Rightarrow> string list \<Rightarrow> string \<Rightarrow> string list" where
  "clean_elem rooted out e =
     (if e = [] \<or> e = ''.'' then out
      else if e = ''..'' then
        (if out \<noteq> [] \<and> last out \<noteq> ''..'' then butlast out
         else if rooted then out
         else out @ [''..''])
      else out @ [e])"

definition Clean :: "string \<Rightarrow> string" where
  "Clean path =
     (if path = [] then ''.''
      else
        (let rooted = (hd path = CHR ''/'');
             out = foldl (clean_elem rooted) [] (split_slash path)
         in if rooted then CHR ''/'' # join_slash out
            else if out = [] then ''.''
            else join_slash out))"

text \<open>
  \<^verbatim>\<open>filepath.Join\<close>: leading empty elements are skipped, the rest is joined with slashes and
  cleaned; with nothing but empty elements the result is the empty string.
\<close>

definition filepath_Join :: "string list \<Rightarrow> string" where
  "filepath_Join elem =
     (case dropWhile (\<lambda>e. e = []) elem of
        [] \<Rightarrow> []
      | es \<Rightarrow> Clean (join_slash es))"

text \<open>\<^verbatim>\<open>filepath.Dir\<close>: the path up to its last slash, cleaned.\<close>

definition filepath_Dir :: "string \<Rightarrow> string" where
  "filepath_Dir path = Clean (rev (dropWhile (\<lambda>ch. ch \<noteq> CHR ''/'') (rev path)))"

text \<open>
  The directories that \<^verbatim>\<open>os.MkdirAll(path)\<close> makes sure of: the path and every prefix of
  it that ends at an element (the root itself apart).
\<close>

definition tree_of :: "string \<Rightarrow> string list" where
  "tree_of path =
     (let es = filter (\<lambda>e. e \<noteq> []) (split_slash path);
          lead = (if path \<noteq> [] \<and> hd path = CHR ''/'' then ''/'' else [])
      in map (\<lambda>k. lead @ join_slash (take k es)) [1 ..< Suc (length es)])"

text \<open>
  A plain element of a path: a name that \<^verbatim>\<open>Clean\<close> keeps as it is.  \<open>dir_prefix dir\<close> is
  what \<^verbatim>\<open>filepath.Join(dir, file)\<close> puts before a plain file name.
\<close>

definition plain :: "string \<Rightarrow> bool" where
  "plain e = (e \<noteq> [] \<and> CHR ''/'' \<notin> set e \<and> e \<noteq> ''.'' \<and> e \<noteq> ''..'')"


section \<open>Decimal strings\<close>

text \<open>\<^verbatim>\<open>strconv.FormatInt(i, 10)\<close> on an \<^verbatim>\<open>int64\<close>; \<^verbatim>\<open>strconv.Itoa\<close> is the same on an \<^verbatim>\<open>int\<close>
  (64 bits on amd64, the only architecture the engine accepts).\<close>

fun utoa :: "nat \<Rightarrow> string" where
  "utoa n = (if n < 10 then [''0123456789'' ! n] else utoa (n div 10) @ [''0123456789'' ! (n mod 10)])"

declare utoa.simps [simp del]

text \<open>Reading a string of decimal digits back, to say what the string of a number is.\<close>

definition atou :: "string \<Rightarrow> nat" where
  "atou s = foldl (\<lambda>a ch. 10 * a + (of_char ch - 48)) 0 s"

definition FormatInt :: "64 word \<Rightarrow> string" where
  "FormatInt i = (if sint i < 0 then CHR ''-'' # utoa (nat (- sint i)) else utoa (nat (sint i)))"

definition Itoa :: "64 word \<Rightarrow> string" where
  "Itoa i = FormatInt i"

section \<open>The host: mount tables and the filesystem\<close>

text \<open>
  Everything the cgroup code reads or changes outside itself.

  \<^item> \<open>mountpoints\<close> and \<open>initdirs\<close> are the answers of \<^verbatim>\<open>cgroups.FindCgroupMountpoint\<close> and
    \<^verbatim>\<open>cgroups.GetInitCgroupDir\<close>, two functions of package \<^verbatim>\<open>pkg/cgroups\<close> that are not
    among the sources: they read the kernel's mount table and \<^verbatim>\<open>/proc/1/cgroup\<close> and
    return a path or an error (\<open>ErrNotFound\<close> for a subsystem the host does not have).
  \<^item> \<open>dirs\<close> and \<open>files\<close> are the directories that exist and the regular files with
    their contents, under the names by which they were made.
  \<^item> \<open>cwd\<close> is the working directory of the process, which relative names start from.
  \<^item> \<open>mkdir_fault\<close> and \<open>write_fault\<close> say where the kernel refuses to make a directory
    or to write a file for a reason the other fields do not show (permissions, a read-only
    mount, a pid that is gone), and with which errno.
  \<^item> \<open>remove_fault\<close> lists the entries (directories or files) whose removal fails even
    when they are empty (a cgroup that still has tasks, permissions, a directory above
    them that cannot be read), with the errno, in the order in which a removal meets them.
  \<^item> \<open>dot_refused\<close> says how \<^verbatim>\<open>os.RemoveAll\<close> of the Go release in use treats a name whose
    last element is \<^verbatim>\<open>.\<close>: the releases since 1.12 refuse it before they remove anything,
    the earlier ones remove what lies below it first.
\<close>

record host =
  mountpoints :: "string \<Rightarrow> error + string"
  initdirs :: "string \<Rightarrow> error + string"
  dirs :: "string set"
  files :: "string \<rightharpoonup> string"
  cwd :: string
  mkdir_fault :: "string \<rightharpoonup> errno"
  write_fault :: "string \<rightharpoonup> errno"
  remove_fault :: "(string \<times> errno) list"
  dot_refused :: bool

definition FindCgroupMountpoint :: "host \<Rightarrow> string \<Rightarrow> error + string" where
  "FindCgroupMountpoint w subsystem = mountpoints w subsystem"

definition GetInitCgroupDir :: "host \<Rightarrow> string \<Rightarrow> error + string" where
  "GetInitCgroupDir w subsystem = initdirs w subsystem"

text \<open>\<^verbatim>\<open>os.Stat\<close> succeeds on what exists.\<close>

definition Stat_ok :: "host \<Rightarrow> string \<Rightarrow> bool" where
  "Stat_ok w path = (path \<in> dirs w \<or> files w path \<noteq> None)"

text \<open>
  \<^verbatim>\<open>os.MkdirAll(path, perm)\<close>: nothing to do and no error when the path is a directory
  already; an error when the path is empty, when the path or a prefix of it is a regular
  file, or when the kernel refuses; otherwise the path and its missing parents are
  created.
\<close>

definition MkdirAll :: "host \<Rightarrow> string \<Rightarrow> error option \<times> host" where
  "MkdirAll w path =
     (if path \<in> dirs w then (None, w)
      else if path = [] then (Some (PathError ''mkdir'' path ENOENT), w)
      else if \<exists>q \<in> set (tree_of path). files w q \<noteq> None then (Some (PathError ''mkdir'' path ENOTDIR), w)
      else (case mkdir_fault w path of
              Some en \<Rightarrow> (Some (PathError ''mkdir'' path en), w)
            | None \<Rightarrow> (None, w\<lparr>dirs := dirs w \<union> set (tree_of path)\<rparr>)))"

text \<open>
  \<^verbatim>\<open>ioutil.WriteFile(filename, data, perm)\<close>: creates or truncates the file and writes the
  data, so that the data is the whole content; fails when the kernel refuses, the name is
  a directory or the directory of the file does not exist.
\<close>

definition WriteFile :: "host \<Rightarrow> string \<Rightarrow> string \<Rightarrow> error option \<times> host" where
  "WriteFile w filename content =
     (case write_fault w filename of
        Some en \<Rightarrow> (Some (PathError ''open'' filename en), w)
      | None \<Rightarrow>
          if filename \<in> dirs w then (Some (PathError ''open'' filename EISDIR), w)
          else if filepath_Dir filename \<notin> dirs w then (Some (PathError ''open'' filename ENOENT), w)
          else (None, w\<lparr>files := (files w)(filename \<mapsto> content)\<rparr>))"

text \<open>
  \<^verbatim>\<open>filepath.Abs\<close>: the one absolute, cleaned name of what a path names.  An absolute path
  is cleaned; a relative one is joined to the working directory.  (The working directory
  of a process is always absolute; it is read with a leading slash.)
\<close>

definition filepath_Abs :: "host \<Rightarrow> string \<Rightarrow> string" where
  "filepath_Abs w path =
     (if path \<noteq> [] \<and> hd path = CHR ''/'' then Clean path
      else Clean (CHR ''/'' # cwd w @ CHR ''/'' # path))"

text \<open>
  \<open>under w dir path\<close>: what the path names is the directory or lies below it.  The two
  are compared by their absolute names; everything lies below the root.
\<close>

definition under :: "host \<Rightarrow> string \<Rightarrow> string \<Rightarrow> bool" where
  "under w dir path =
     (let d = filepath_Abs w dir; x = filepath_Abs w path
      in x = d \<or> prefix (if d = ''/'' then d else d @ ''/'') x)"

text \<open>
  \<open>pinned w path\<close>: the path cannot be removed, because the kernel refuses to remove it or
  something that exists at or below it (a directory that is not empty cannot be removed).
\<close>

definition pinned :: "host \<Rightarrow> string \<Rightarrow> bool" where
  "pinned w path = list_ex (\<lambda>(r, en). Stat_ok w r \<and> under w path r) (remove_fault w)"

text \<open>
  A directory cannot be removed under a name that ends in \<^verbatim>\<open>.\<close> or \<^verbatim>\<open>..\<close>, and the root
  cannot be removed at all: \<open>top_stays w path\<close> is the errno of \<^verbatim>\<open>rmdir\<close> then.
\<close>

definition top_stays :: "host \<Rightarrow> string \<Rightarrow> errno option" where
  "top_stays w path =
     (if last (split_slash path) = ''.'' then Some EINVAL
      else if last (split_slash path) = ''..'' then Some ENOTEMPTY
      else if filepath_Abs w path = ''/'' then Some EBUSY
      else None)"

text \<open>\<^verbatim>\<open>os.RemoveAll\<close> refuses the path before it removes anything.\<close>

definition refused_outright :: "host \<Rightarrow> string \<Rightarrow> bool" where
  "refused_outright w path = (dot_refused w \<and> last (split_slash path) = ''.'')"

text \<open>
  \<open>reaches w path q\<close>: a removal of everything at \<open>path\<close> gets to \<open>q\<close>, which is at or
  below the path and is not a top directory that stays.
\<close>

definition reaches :: "host \<Rightarrow> string \<Rightarrow> string \<Rightarrow> bool" where
  "reaches w path q =
     (under w path q \<and> \<not> refused_outright w path
      \<and> (top_stays w path = None \<or> filepath_Abs w q \<noteq> filepath_Abs w path))"

text \<open>
  \<^verbatim>\<open>os.RemoveAll(path)\<close> removes the path and everything below it that can be removed: it
  removes the entries of a directory first and then the directory, goes on after a
  failure, and returns the first error it has met, or nil.  So every entry that it reaches
  is gone afterwards unless it is pinned, and the call fails exactly when the kernel
  refuses one of them or the top directory has to stay.  A path that does not exist is no
  error, and the empty path names nothing.  The path is one that \<^verbatim>\<open>filepath.Join\<close> has
  returned, as every path of this package is: it is cleaned, so that its absolute name is
  the entry that the kernel finds.
\<close>

definition RemoveAll :: "host \<Rightarrow> string \<Rightarrow> error option \<times> host" where
  "RemoveAll w path =
     (if path = [] then (None, w)
      else if refused_outright w path then (Some (PathError ''RemoveAll'' path EINVAL), w)
      else
        (let w' = w\<lparr>dirs := Set.filter (\<lambda>q. \<not> reaches w path q \<or> pinned w q) (dirs w),
                     files := (\<lambda>q. if reaches w path q \<and> \<not> pinned w q then None else files w q)\<rparr>
         in (case find (\<lambda>(r, en). Stat_ok w r \<and> under w path r) (remove_fault w) of
               Some (r, en) \<Rightarrow> (Some (PathError ''remove'' r en), w')
             | None \<Rightarrow>
                 (case top_stays w path of
                    Some en \<Rightarrow> (Some (PathError ''remove'' path en), w')
                  | None \<Rightarrow> (None, w')))))"

section \<open>Raw cgroup filesystem operations (package \<^verbatim>\<open>fs\<close>)\<close>

text \<open>
  \<^verbatim>\<open>cgroups.Cgroup\<close> is declared in \<^verbatim>\<open>pkg/cgroups\<close>, not among the sources; the sources read
  its fields \<^verbatim>\<open>Name\<close>, \<^verbatim>\<open>Parent\<close> (strings) and \<^verbatim>\<open>CpuShares\<close> (passed to
  \<^verbatim>\<open>strconv.FormatInt\<close>, so an \<^verbatim>\<open>int64\<close>).
\<close>

record Cgroup =
  Name :: string
  Parent :: string
  CpuShares :: "64 word"

text \<open>\<^verbatim>\<open>type data struct { root string; cgroup string; c *cgroups.Cgroup; pid int }\<close>\<close>

record data =
  root :: string
  cgroup :: string
  c :: Cgroup
  pid :: "64 word"

text \<open>
  \<^verbatim>\<open>
  func (raw *data) path(subsystem string) (string, error) {
      initPath, err := cgroups.GetInitCgroupDir(subsystem)
      if err != nil {
          return "", err
      }
      return filepath.Join(raw.root, subsystem, initPath, raw.cgroup), nil
  }
  \<close>
\<close>

definition path :: "data \<Rightarrow> host \<Rightarrow> string \<Rightarrow> error + string" where
  "path raw w subsystem =
     (case GetInitCgroupDir w subsystem of
        Inl err \<Rightarrow> Inl err
      | Inr initPath \<Rightarrow> Inr (filepath_Join [root raw, subsystem, initPath, cgroup raw]))"

text \<open>
  \<^verbatim>\<open>
  func writeFile(dir, file, data string) error {
      return ioutil.WriteFile(filepath.Join(dir, file), []byte(data), 0700)
  }
  \<close>
\<close>

definition writeFile :: "string \<Rightarrow> string \<Rightarrow> string \<Rightarrow> host \<Rightarrow> error option \<times> host" where
  "writeFile dir file content w = WriteFile w (filepath_Join [dir, file]) content"

text \<open>
  \<^verbatim>\<open>
  func (raw *data) join(subsystem string) (string, error) {
      path, err := raw.path(subsystem)
      if err != nil {
          return "", err
      }
      if err := os.MkdirAll(path, 0755); err != nil && !os.IsExist(err) {
          return "", err
      }
      if err := writeFile(path, "cgroup.procs", strconv.Itoa(raw.pid)); err != nil {
          return "", err
      }
      return path, nil
  }
  \<close>
\<close>

definition join :: "data \<Rightarrow> string \<Rightarrow> host \<Rightarrow> (error + string) \<times> host" where
  "join raw subsystem w =
     (case path raw w subsystem of
        Inl err \<Rightarrow> (Inl err, w)
      | Inr p \<Rightarrow>
          (case MkdirAll w p of
             (Some err, w1) \<Rightarrow>
               if \<not> IsExist err then (Inl err, w1)
               else (case writeFile p ''cgroup.procs'' (Itoa (pid raw)) w1 of
                       (Some err', w2) \<Rightarrow> (Inl err', w2)
                     | (None, w2) \<Rightarrow> (Inr p, w2))
           | (None, w1) \<Rightarrow>
               (case writeFile p ''cgroup.procs'' (Itoa (pid raw)) w1 of
                  (Some err', w2) \<Rightarrow> (Inl err', w2)
                | (None, w2) \<Rightarrow> (Inr p, w2))))"

subsection \<open>The subsystems\<close>

text \<open>
  \<^verbatim>\<open>
  func (s *perfEventGroup) Set(d *data) error {
      // we just want to join this group even though we don't set anything
      if _, err := d.join("perf_event"); err != nil && err != cgroups.ErrNotFound {
          return err
      }
      return nil
  }
  \<close>
\<close>

definition perfEventGroup_Set :: "data \<Rightarrow> host \<Rightarrow> error option \<times> host" where
  "perfEventGroup_Set d w =
     (case join d ''perf_event'' w of
        (Inl err, w1) \<Rightarrow> if err \<noteq> ErrNotFound then (Some err, w1) else (None, w1)
      | (Inr _, w1) \<Rightarrow> (None, w1))"

text \<open>
  \<^verbatim>\<open>
  func (s *cpuGroup) Set(d *data) error {
      // We always want to join the cpu group, to allow fair cpu scheduling
      // on a container basis
      dir, err := d.join("cpu")
      if err != nil {
          return err
      }
      if d.c.CpuShares != 0 {
          if err := writeFile(dir, "cpu.shares", strconv.FormatInt(d.c.CpuShares, 10)); err != nil {
              return err
          }
      }
      return nil
  }
  \<close>
\<close>

definition cpuGroup_Set :: "data \<Rightarrow> host \<Rightarrow> error option \<times> host" where
  "cpuGroup_Set d w =
     (case join d ''cpu'' w of
        (Inl err, w1) \<Rightarrow> (Some err, w1)
      | (Inr dir, w1) \<Rightarrow>
          if CpuShares (c d) \<noteq> 0
          then writeFile dir ''cpu.shares'' (FormatInt (CpuShares (c d))) w1
          else (None, w1))"

text \<open>
  \<^verbatim>\<open>
  var subsystems = []subsystem{ &devicesGroup{}, &memoryGroup{}, &cpuGroup{}, &cpusetGroup{},
                               &cpuacctGroup{}, &blkioGroup{}, &perfEventGroup{}, &freezerGroup{} }
  type subsystem interface { Set(*data) error }
  \<close>
  The eight types have no fields: a value of the interface is its type.
\<close>

datatype subsystem =
  devicesGroup | memoryGroup | cpuGroup | cpusetGroup | cpuacctGroup | blkioGroup
  | perfEventGroup | freezerGroup

definition subsystems :: "subsystem list" where
  "subsystems =
     [devicesGroup, memoryGroup, cpuGroup, cpusetGroup, cpuacctGroup, blkioGroup,
      perfEventGroup, freezerGroup]"

text \<open>
  Dynamic dispatch of \<^verbatim>\<open>sys.Set(d)\<close>.  The \<^verbatim>\<open>Set\<close> methods of \<^verbatim>\<open>cpuGroup\<close> and
  \<^verbatim>\<open>perfEventGroup\<close> are in the sources; those of the six other types are not, and are
  the parameter \<open>others\<close>: any function from the data and the host to an error and a host.
  A \<^verbatim>\<open>Set\<close> method gets a pointer to the data; the two in the sources only read
  through it, and a setter here cannot change the data either.
\<close>

type_synonym setter = "data \<Rightarrow> host \<Rightarrow> error option \<times> host"

fun Set_of :: "(subsystem \<Rightarrow> setter) \<Rightarrow> subsystem \<Rightarrow> setter" where
  "Set_of others cpuGroup = cpuGroup_Set"
| "Set_of others perfEventGroup = perfEventGroup_Set"
| "Set_of others sys = others sys"

text \<open>
  The loop of \<^verbatim>\<open>Apply\<close>:
  \<^verbatim>\<open>
  for _, sys := range subsystems {
      if err := sys.Set(d); err != nil {
          return nil, err
      }
  }
  \<close>
\<close>

fun Apply_loop :: "(subsystem \<Rightarrow> setter) \<Rightarrow> subsystem list \<Rightarrow> data \<Rightarrow> host \<Rightarrow> error option \<times> host" where
  "Apply_loop others [] d w = (None, w)"
| "Apply_loop others (sys # rest) d w =
     (case Set_of others sys d w of
        (Some err, w1) \<Rightarrow> (Some err, w1)
      | (None, w1) \<Rightarrow> Apply_loop others rest d w1)"

text \<open>
  \<^verbatim>\<open>
  func Apply(c *cgroups.Cgroup, pid int) (cgroups.ActiveCgroup, error) {
      cgroupRoot, err := cgroups.FindCgroupMountpoint("cpu")
      if err != nil {
          return nil, err
      }
      cgroupRoot = filepath.Dir(cgroupRoot)

      if _, err := os.Stat(cgroupRoot); err != nil {
          return nil, fmt.Errorf("cgroups fs not found")
      }

      cgroup := c.Name
      if c.Parent != "" {
          cgroup = filepath.Join(c.Parent, cgroup)
      }

      d := &data{ root: cgroupRoot, cgroup: cgroup, c: c, pid: pid }
      for _, sys := range subsystems {
          if err := sys.Set(d); err != nil {
              return nil, err
          }
      }
      return d, nil
  }
  \<close>
  The result is the error or the handle (never both), with the host as the call left it.
\<close>

definition Apply :: "(subsystem \<Rightarrow> setter) \<Rightarrow> Cgroup \<Rightarrow> 64 word \<Rightarrow> host \<Rightarrow> (error + data) \<times> host" where
  "Apply others spec p w =
     (case FindCgroupMountpoint w ''cpu'' of
        Inl err \<Rightarrow> (Inl err, w)
      | Inr mp \<Rightarrow>
          (let cgroupRoot = filepath_Dir mp in
           if \<not> Stat_ok w cgroupRoot then (Inl (Errorf ''cgroups fs not found''), w)
           else
             (let cg = (if Parent spec \<noteq> [] then filepath_Join [Parent spec, Name spec] else Name spec);
                  d = \<lparr>root = cgroupRoot, cgroup = cg, c = spec, pid = p\<rparr>
              in (case Apply_loop others subsystems d w of
                    (Some err, w1) \<Rightarrow> (Inl err, w1)
                  | (None, w1) \<Rightarrow> (Inr d, w1)))))"

text \<open>
  \<^verbatim>\<open>
  func (raw *data) Cleanup() error {
      get := func(subsystem string) string {
          path, _ := raw.path(subsystem)
          return path
      }
      for _, path := range []string{ get("memory"), get("devices"), get("cpu"), get("cpuset"),
                                     get("cpuacct"), get("blkio"), get("perf_event"), get("freezer") } {
          if path != "" {
              os.RemoveAll(path)
          }
      }
      return nil
  }
  \<close>
  The slice of paths is built before the loop starts; the result of \<^verbatim>\<open>os.RemoveAll\<close> is
  dropped.
\<close>

definition get :: "data \<Rightarrow> host \<Rightarrow> string \<Rightarrow> string" where
  "get raw w subsystem = (case path raw w subsystem of Inl _ \<Rightarrow> [] | Inr p \<Rightarrow> p)"

definition cleanup_names :: "string list" where
  "cleanup_names =
     [''memory'', ''devices'', ''cpu'', ''cpuset'', ''cpuacct'', ''blkio'', ''perf_event'', ''freezer'']"

fun Cleanup_loop :: "string list \<Rightarrow> host \<Rightarrow> host" where
  "Cleanup_loop [] w = w"
| "Cleanup_loop (p # ps) w = Cleanup_loop ps (if p \<noteq> [] then snd (RemoveAll w p) else w)"

definition Cleanup :: "data \<Rightarrow> host \<Rightarrow> error option \<times> host" where
  "Cleanup raw w = (None, Cleanup_loop (map (get raw w) cleanup_names) w)"

section \<open>A host to run the code on\<close>

text \<open>
  Modelled from the spec: the \<^verbatim>\<open>Set\<close> methods of \<^verbatim>\<open>devicesGroup\<close>, \<^verbatim>\<open>memoryGroup\<close>,
  \<^verbatim>\<open>cpusetGroup\<close>, \<^verbatim>\<open>cpuacctGroup\<close>, \<^verbatim>\<open>blkioGroup\<close> and \<^verbatim>\<open>freezerGroup\<close>, which are
  missing from the sources.  The specification (4.2) has each of them join its own
  hierarchy first, always, and then write configuration files for the options that the
  resource specification sets; \<open>joinOnly\<close> is the join, which is all that happens for a
  specification that sets none of their options.  The names of the hierarchies are those
  that \<^verbatim>\<open>Cleanup\<close> lists.  \<open>joining\<close> is the instance of the parameter \<open>others\<close> used to run
  \<open>Apply\<close> from end to end on the hosts below; the theorems hold for every \<open>others\<close>.
\<close>

definition joinOnly :: "string \<Rightarrow> setter" where
  "joinOnly name d w =
     (case join d name w of
        (Inl err, w1) \<Rightarrow> (Some err, w1)
      | (Inr _, w1) \<Rightarrow> (None, w1))"

fun joining :: "subsystem \<Rightarrow> setter" where
  "joining devicesGroup = joinOnly ''devices''"
| "joining memoryGroup = joinOnly ''memory''"
| "joining cpuGroup = joinOnly ''cpu''"
| "joining cpusetGroup = joinOnly ''cpuset''"
| "joining cpuacctGroup = joinOnly ''cpuacct''"
| "joining blkioGroup = joinOnly ''blkio''"
| "joining perfEventGroup = joinOnly ''perf_event''"
| "joining freezerGroup = joinOnly ''freezer''"

text \<open>
  A host with every hierarchy mounted under \<^verbatim>\<open>/cgroup\<close>, the init process in the root cgroup
  of each, nothing created yet and no operation refused.
\<close>

definition host_ok :: host where
  "host_ok =
     \<lparr>mountpoints = (\<lambda>s. if s \<in> set cleanup_names then Inr (''/cgroup/'' @ s) else Inl ErrNotFound),
      initdirs = (\<lambda>s. if s \<in> set cleanup_names then Inr ''/'' else Inl ErrNotFound),
      dirs = {''/cgroup''},
      files = Map.empty,
      cwd = ''/'',
      mkdir_fault = Map.empty,
      write_fault = Map.empty,
      remove_fault = [],
      dot_refused = False\<rparr>"

text \<open>The same host without the perf_event hierarchy.\<close>

definition host_no_perf :: host where
  "host_no_perf =
     host_ok\<lparr>mountpoints := (mountpoints host_ok)(''perf_event'' := Inl ErrNotFound),
             initdirs := (initdirs host_ok)(''perf_event'' := Inl ErrNotFound)\<rparr>"

text \<open>The same host, refusing to create the container's perf_event directory.\<close>

definition host_perf_denied :: host where
  "host_perf_denied = host_ok\<lparr>mkdir_fault := [''/cgroup/perf_event/c1'' \<mapsto> EACCES]\<rparr>"

text \<open>A container named \<^verbatim>\<open>c1\<close> with 512 cpu shares, for process 4242, and its handle.\<close>

definition spec_c1 :: Cgroup where
  "spec_c1 = \<lparr>Name = ''c1'', Parent = [], CpuShares = 512\<rparr>"

definition handle_c1 :: data where
  "handle_c1 = \<lparr>root = ''/cgroup'', cgroup = ''c1'', c = spec_c1, pid = 4242\<rparr>"


text \<open>
  The host some time after \<open>Apply\<close> on \<open>host_ok\<close>: the eight directories of \<^verbatim>\<open>c1\<close> exist,
  and the cpu one cannot be removed (it still has tasks).
\<close>

definition host_cpu_busy :: host where
  "host_cpu_busy =
     host_ok\<lparr>dirs := {''/cgroup''} \<union> (\<lambda>s. ''/cgroup/'' @ s) ` set cleanup_names
                      \<union> (\<lambda>s. ''/cgroup/'' @ s @ ''/c1'') ` set cleanup_names,
             remove_fault := [(''/cgroup/cpu/c1'', EBUSY)]\<rparr>"

text \<open>
  The host some time after \<open>Apply\<close> on \<open>host_no_perf\<close>: the perf_event hierarchy has been
  mounted meanwhile, and somebody else has made a directory \<^verbatim>\<open>c1\<close> in it.
\<close>

definition host_perf_later :: host where
  "host_perf_later =
     host_ok\<lparr>dirs := {''/cgroup''} \<union> (\<lambda>s. ''/cgroup/'' @ s) ` set cleanup_names
                      \<union> (\<lambda>s. ''/cgroup/'' @ s @ ''/c1'') ` set cleanup_names\<rparr>"

text \<open>The same state of the filesystem on a host that still has no perf_event hierarchy.\<close>

definition host_no_perf_later :: host where
  "host_no_perf_later = host_perf_later\<lparr>initdirs := initdirs host_no_perf\<rparr>"

text \<open>The names that \<open>Cleanup\<close> lists, perf_event apart.\<close>

definition cleanup_names_but_perf_event :: "string list" where
  "cleanup_names_but_perf_event =
     [''memory'', ''devices'', ''cpu'', ''cpuset'', ''cpuacct'', ''blkio'', ''freezer'']"

text \<open>
  A handle whose hierarchy path climbs out of the hierarchy, so that every one of its
  directories is the root, on a host that has more than cgroups.
\<close>

definition handle_escape :: data where
  "handle_escape =
     \<lparr>root = ''/cgroup'', cgroup = ''../..'', c = spec_c1\<lparr>Name := ''../..''\<rparr>, pid = 4242\<rparr>"

definition host_etc :: host where
  "host_etc = host_ok\<lparr>dirs := {''/'', ''/cgroup'', ''/etc''}, files := [''/etc/passwd'' \<mapsto> ''root'']\<rparr>"

text \<open>A host without cgroups, and one whose mount table names a root that is not there.\<close>

definition host_no_cgroups :: host where
  "host_no_cgroups = host_ok\<lparr>mountpoints := (\<lambda>s. Inl ErrNotFound)\<rparr>"

definition host_no_root :: host where
  "host_no_root = host_ok\<lparr>dirs := {}\<rparr>"

text \<open>The subsystems that \<open>Apply\<close> reaches before perf_event.\<close>

definition before_perf_event :: "subsystem list" where
  "before_perf_event = [devicesGroup, memoryGroup, cpuGroup, cpusetGroup, cpuacctGroup, blkioGroup]"

section \<open>Basic facts\<close>

subsection \<open>Paths\<close>

lemma split_slash_not_Nil: "split_slash s \<noteq> []"
  by (cases s) (simp_all split: list.splits)

lemma split_slash_append: "split_slash (a @ CHR ''/'' # b) = split_slash a @ split_slash b"
proof (induction a)
  case Nil
  show ?case by simp
next
  case (Cons ch a)
  obtain e es where "split_slash a = e # es"
    using split_slash_not_Nil [of a] by (cases "split_slash a") auto
  with Cons show ?case by simp
qed

lemma split_slash_no_slash: "CHR ''/'' \<notin> set e \<Longrightarrow> split_slash e = [e]"
  by (induction e) auto

lemma split_slash_join_slash:
  "\<forall>e \<in> set es. CHR ''/'' \<notin> set e \<Longrightarrow> es \<noteq> [] \<Longrightarrow> split_slash (join_slash es) = es"
proof (induction es rule: join_slash.induct)
  case 1
  then show ?case by simp
next
  case (2 e)
  then show ?case by (simp add: split_slash_no_slash)
next
  case (3 e v va)
  then show ?case by (simp add: split_slash_append split_slash_no_slash)
qed

lemma join_slash_snoc: "join_slash (es @ [f]) = (if es = [] then f else join_slash es @ CHR ''/'' # f)"
  by (induction es rule: join_slash.induct) simp_all

lemma join_slash_append:
  "xs \<noteq> [] \<Longrightarrow> ys \<noteq> [] \<Longrightarrow> join_slash (xs @ ys) = join_slash xs @ CHR ''/'' # join_slash ys"
  by (induction xs rule: join_slash.induct) (simp_all, cases ys, simp_all)

lemma clean_elem_plain: "plain e \<Longrightarrow> clean_elem r out e = out @ [e]"
  by (simp add: clean_elem_def plain_def)

lemma clean_elem_empty: "clean_elem r out [] = out"
  by (simp add: clean_elem_def)

lemma foldl_clean_elem_plain:
  "\<forall>e \<in> set es. e = [] \<or> plain e \<Longrightarrow>
     foldl (clean_elem r) out es = out @ filter (\<lambda>e. e \<noteq> []) es"
proof (induction es arbitrary: out)
  case Nil
  show ?case by simp
next
  case (Cons e es)
  then show ?case by (cases "e = []") (auto simp: clean_elem_plain clean_elem_empty)
qed

lemma plain_no_slash: "plain e \<Longrightarrow> CHR ''/'' \<notin> set e"
  by (simp add: plain_def)


lemma plain_not_Nil: "plain e \<Longrightarrow> e \<noteq> []"
  by (simp add: plain_def)

lemma no_slash_if_empty_or_plain: "e = [] \<or> plain e \<Longrightarrow> CHR ''/'' \<notin> set e"
  by (erule disjE) (simp_all add: plain_no_slash)






text \<open>The layout of a path built from plain elements.\<close>

lemma Clean_rooted_plain:
  assumes "\<forall>e \<in> set es. e = [] \<or> plain e"
  shows "Clean (CHR ''/'' # join_slash es) = CHR ''/'' # join_slash (filter (\<lambda>e. e \<noteq> []) es)"
proof (cases "es = []")
  case True
  then show ?thesis by (simp add: Clean_def clean_elem_def)
next
  case False
  from assms have "\<forall>e \<in> set es. CHR ''/'' \<notin> set e"
    using no_slash_if_empty_or_plain by blast
  with False have s: "split_slash (join_slash es) = es"
    by (simp add: split_slash_join_slash)
  from assms show ?thesis
    by (simp add: Clean_def clean_elem_empty foldl_clean_elem_plain s)
qed

lemma join_slash_plain_hd:
  assumes "\<forall>e \<in> set es. plain e" and "es \<noteq> []"
  shows "join_slash es \<noteq> [] \<and> hd (join_slash es) \<noteq> CHR ''/''"
proof -
  from assms obtain e es' where es: "es = e # es'" and e: "plain e" by (cases es) auto
  from e obtain ch e' where "e = ch # e'" "ch \<noteq> CHR ''/''" by (cases e) (auto simp: plain_def)
  with es show ?thesis by (cases es') simp_all
qed

lemma Clean_relative_plain:
  assumes "\<forall>e \<in> set es. plain e" and "es \<noteq> []"
  shows "Clean (join_slash es) = join_slash es"
proof -
  from assms have "\<forall>e \<in> set es. CHR ''/'' \<notin> set e"
    using plain_no_slash by blast
  with assms(2) have s: "split_slash (join_slash es) = es" by (simp add: split_slash_join_slash)
  from assms(1) have f: "filter (\<lambda>e. e \<noteq> []) es = es"
    by (induction es) (simp_all add: plain_not_Nil)
  from assms(1) have "\<forall>e \<in> set es. e = [] \<or> plain e" by simp
  then have o: "foldl (clean_elem False) [] es = es"
    by (simp add: foldl_clean_elem_plain f)
  from join_slash_plain_hd [OF assms] assms(2) show ?thesis
    by (simp add: Clean_def s o)
qed


lemma join_slash_Cons: "es \<noteq> [] \<Longrightarrow> join_slash (e # es) = e @ CHR ''/'' # join_slash es"
  by (cases es) simp_all

lemma filepath_Join_parent:
  assumes "\<forall>e \<in> set ps. plain e" and "ps \<noteq> []" and "plain n"
  shows "filepath_Join [join_slash ps, n] = join_slash (ps @ [n])"
proof -
  from join_slash_plain_hd [OF assms(1,2)] have "join_slash ps \<noteq> []" by simp
  then have "filepath_Join [join_slash ps, n] = Clean (join_slash ps @ CHR ''/'' # n)"
    by (simp add: filepath_Join_def)
  also from assms(2) have "join_slash ps @ CHR ''/'' # n = join_slash (ps @ [n])"
    by (simp add: join_slash_snoc)
  also from assms(1,3) have "Clean (join_slash (ps @ [n])) = join_slash (ps @ [n])"
    by (simp add: Clean_relative_plain)
  finally show ?thesis .
qed

lemma filepath_Join_layout:
  assumes "\<forall>e \<in> set (rs @ [s] @ is @ cs). plain e" and "cs \<noteq> []"
  shows "filepath_Join [CHR ''/'' # join_slash rs, s, CHR ''/'' # join_slash is, join_slash cs]
     = CHR ''/'' # join_slash (rs @ [s] @ is @ cs)"
proof -
  define rs' where "rs' = (if rs = [] then [[]] else rs)"
  define is' where "is' = (if is = [] then [[]] else is)"
  have j: "join_slash rs' = join_slash rs" "join_slash is' = join_slash is"
    and ne: "rs' \<noteq> []" "is' \<noteq> []"
    and f: "filter (\<lambda>e. e \<noteq> []) rs' = filter (\<lambda>e. e \<noteq> []) rs"
      "filter (\<lambda>e. e \<noteq> []) is' = filter (\<lambda>e. e \<noteq> []) is"
    by (simp_all add: rs'_def is'_def)
  from assms(1) have nn: "filter (\<lambda>e. e \<noteq> []) rs = rs" "filter (\<lambda>e. e \<noteq> []) is = is"
    "filter (\<lambda>e. e \<noteq> []) cs = cs" "s \<noteq> []"
    by (simp_all add: filter_id_conv plain_not_Nil)
  have "join_slash [CHR ''/'' # join_slash rs, s, CHR ''/'' # join_slash is, join_slash cs]
      = CHR ''/'' # join_slash (rs' @ [s] @ [[]] @ is' @ cs)"
    using ne assms(2) by (simp add: join_slash_append join_slash_Cons j)
  then have "filepath_Join [CHR ''/'' # join_slash rs, s, CHR ''/'' # join_slash is, join_slash cs]
      = Clean (CHR ''/'' # join_slash (rs' @ [s] @ [[]] @ is' @ cs))"
    by (simp add: filepath_Join_def)
  also have "\<dots> = CHR ''/'' # join_slash (filter (\<lambda>e. e \<noteq> []) (rs' @ [s] @ [[]] @ is' @ cs))"
  proof (rule Clean_rooted_plain)
    from assms(1) show "\<forall>e \<in> set (rs' @ [s] @ [[]] @ is' @ cs). e = [] \<or> plain e"
      by (auto simp: rs'_def is'_def)
  qed
  also have "filter (\<lambda>e. e \<noteq> []) (rs' @ [s] @ [[]] @ is' @ cs) = rs @ [s] @ is @ cs"
    by (simp add: f nn)
  finally show ?thesis .
qed


text \<open>A cleaned path is the last of the directories on the way to it.\<close>

lemma split_slash_elems: "\<forall>e \<in> set (split_slash x). CHR ''/'' \<notin> set e"
proof (induction x)
  case Nil
  show ?case by simp
next
  case (Cons ch x)
  obtain e es where "split_slash x = e # es"
    using split_slash_not_Nil [of x] by (cases "split_slash x") auto
  with Cons show ?case by auto
qed

lemma clean_elem_elems:
  assumes "\<forall>e \<in> set out. e \<noteq> [] \<and> CHR ''/'' \<notin> set e" and "CHR ''/'' \<notin> set x"
  shows "\<forall>e \<in> set (clean_elem r out x). e \<noteq> [] \<and> CHR ''/'' \<notin> set e"
proof -
  have "set (butlast out) \<subseteq> set out" by (auto dest: in_set_butlastD)
  with assms show ?thesis by (auto simp: clean_elem_def)
qed

lemma foldl_clean_elem_elems:
  "\<forall>e \<in> set out. e \<noteq> [] \<and> CHR ''/'' \<notin> set e \<Longrightarrow> \<forall>x \<in> set xs. CHR ''/'' \<notin> set x \<Longrightarrow>
     \<forall>e \<in> set (foldl (clean_elem r) out xs). e \<noteq> [] \<and> CHR ''/'' \<notin> set e"
proof (induction xs arbitrary: out)
  case Nil
  then show ?case by simp
next
  case (Cons x xs)
  from Cons.prems(2) have x: "CHR ''/'' \<notin> set x" and xs: "\<forall>x \<in> set xs. CHR ''/'' \<notin> set x"
    by simp_all
  have "\<forall>e \<in> set (clean_elem r out x). e \<noteq> [] \<and> CHR ''/'' \<notin> set e"
    using Cons.prems(1) x by (rule clean_elem_elems)
  then have "\<forall>e \<in> set (foldl (clean_elem r) (clean_elem r out x) xs). e \<noteq> [] \<and> CHR ''/'' \<notin> set e"
    using xs by (rule Cons.IH)
  then show ?case by simp
qed

lemma join_slash_hd: "join_slash ((ch # e) # es) \<noteq> [] \<and> hd (join_slash ((ch # e) # es)) = ch"
  by (cases es) simp_all

lemma tree_of_last:
  assumes "\<forall>e \<in> set out. e \<noteq> [] \<and> CHR ''/'' \<notin> set e" and "out \<noteq> []"
  shows "CHR ''/'' # join_slash out \<in> set (tree_of (CHR ''/'' # join_slash out))"
    and "join_slash out \<in> set (tree_of (join_slash out))"
proof -
  from assms have s: "split_slash (join_slash out) = out" by (simp add: split_slash_join_slash)
  from assms(1) have f: "filter (\<lambda>e. e \<noteq> []) out = out" by (simp add: filter_id_conv)
  from assms(2) have n: "length out \<in> set [1 ..< Suc (length out)]" by (cases out) simp_all
  have "tree_of (CHR ''/'' # join_slash out)
      = map (\<lambda>k. ''/'' @ join_slash (take k out)) [1 ..< Suc (length out)]"
    by (simp add: tree_of_def s f)
  moreover have "CHR ''/'' # join_slash out
      \<in> (\<lambda>k. ''/'' @ join_slash (take k out)) ` set [1 ..< Suc (length out)]"
    by (rule image_eqI [OF _ n]) simp
  ultimately show "CHR ''/'' # join_slash out \<in> set (tree_of (CHR ''/'' # join_slash out))"
    by (simp only: set_map)
  from assms obtain e es where out: "out = e # es" and e: "e \<noteq> []" "CHR ''/'' \<notin> set e"
    by (cases out) auto
  from e obtain ch e' where ch: "e = ch # e'" "ch \<noteq> CHR ''/''" by (cases e) auto
  from join_slash_hd [of ch e' es] out ch
  have h: "join_slash out \<noteq> []" "hd (join_slash out) \<noteq> CHR ''/''" by simp_all
  then have "tree_of (join_slash out)
      = map (\<lambda>k. [] @ join_slash (take k out)) [1 ..< Suc (length out)]"
    by (simp add: tree_of_def s f)
  moreover have "join_slash out \<in> (\<lambda>k. [] @ join_slash (take k out)) ` set [1 ..< Suc (length out)]"
    by (rule image_eqI [OF _ n]) simp
  ultimately show "join_slash out \<in> set (tree_of (join_slash out))"
    by (simp only: set_map)
qed

lemma Clean_in_tree:
  assumes "Clean x \<noteq> ''/''"
  shows "Clean x \<in> set (tree_of (Clean x))"
proof (cases "x = []")
  case True
  then show ?thesis by (simp add: Clean_def tree_of_def)
next
  case False
  define r where "r = (hd x = CHR ''/'')"
  define out where "out = foldl (clean_elem r) [] (split_slash x)"
  have el: "\<forall>e \<in> set out. e \<noteq> [] \<and> CHR ''/'' \<notin> set e"
    unfolding out_def by (rule foldl_clean_elem_elems) (simp_all add: split_slash_elems)
  show ?thesis
  proof (cases r)
    case True
    with False have c: "Clean x = CHR ''/'' # join_slash out"
      by (simp add: Clean_def Let_def r_def out_def)
    with assms have "out \<noteq> []" by auto
    from tree_of_last(1) [OF el this] c show ?thesis by simp
  next
    case nr: False
    show ?thesis
    proof (cases "out = []")
      case True
      with False nr have "Clean x = ''.''"
        using r_def out_def by (simp add: Clean_def Let_def)
      then show ?thesis by (simp add: tree_of_def)
    next
      case ne: False
      with False nr have c: "Clean x = join_slash out"
        using r_def out_def by (simp add: Clean_def Let_def)
      from tree_of_last(2) [OF el ne] c show ?thesis by simp
    qed
  qed
qed

lemma filepath_Join_in_tree:
  assumes "filepath_Join es \<noteq> []" and "filepath_Join es \<noteq> ''/''"
  shows "filepath_Join es \<in> set (tree_of (filepath_Join es))"
proof (cases "dropWhile (\<lambda>e. e = []) es")
  case Nil
  with assms(1) show ?thesis by (simp add: filepath_Join_def)
next
  case (Cons a list)
  then have "filepath_Join es = Clean (join_slash (a # list))" by (simp add: filepath_Join_def)
  with assms(2) Clean_in_tree [of "join_slash (a # list)"] show ?thesis by simp
qed

subsection \<open>Decimal strings\<close>

lemma digit_value: "m < 10 \<Longrightarrow> (of_char (''0123456789'' ! m) :: nat) - 48 = m"
proof -
  assume "m < 10"
  then have "m \<in> {0, 1, 2, 3, 4, 5, 6, 7, 8, 9}" by auto
  then show ?thesis by (elim insertE emptyE) simp_all
qed

lemma atou_snoc: "atou (s @ [ch]) = 10 * atou s + (of_char ch - 48)"
  by (simp add: atou_def)

text \<open>\<open>utoa n\<close> consists of digits and reads back as \<open>n\<close>.\<close>

lemma atou_utoa: "atou (utoa n) = n"
proof (induction n rule: utoa.induct)
  case (1 n)
  show ?case
  proof (cases "n < 10")
    case True
    then show ?thesis by (simp add: utoa.simps [of n] atou_def digit_value)
  next
    case False
    with "1" have "atou (utoa (n div 10)) = n div 10" by simp
    with False show ?thesis
      by (simp add: utoa.simps [of n] atou_snoc digit_value)
  qed
qed

lemma utoa_digits: "set (utoa n) \<subseteq> set ''0123456789''"
proof (induction n rule: utoa.induct)
  case (1 n)
  have d: "''0123456789'' ! m \<in> set ''0123456789''" if "m < 10" for m
    using that by (intro nth_mem) simp
  show ?case
  proof (cases "n < 10")
    case True
    with d [of n] show ?thesis by (simp add: utoa.simps [of n])
  next
    case False
    with "1" d [of "n mod 10"] show ?thesis by (simp add: utoa.simps [of n])
  qed
qed

lemma FormatInt_decimal:
  "0 \<le> sint i \<Longrightarrow> int (atou (FormatInt i)) = sint i"
  "sint i < 0 \<Longrightarrow> \<exists>ds. FormatInt i = CHR ''-'' # ds \<and> int (atou ds) = - sint i"
  by (simp_all add: FormatInt_def atou_utoa)

subsection \<open>The loop of Apply and the filesystem calls\<close>

lemma Apply_loop_append:
  "Apply_loop others (xs @ ys) d w =
     (case Apply_loop others xs d w of
        (Some err, w1) \<Rightarrow> (Some err, w1)
      | (None, w1) \<Rightarrow> Apply_loop others ys d w1)"
  by (induction xs arbitrary: w) (auto split: prod.splits option.splits)

lemma Apply_loop_stops:
  assumes "Apply_loop others pre d w = (None, w1)" and "Set_of others sys d w1 = (Some err, w2)"
  shows "Apply_loop others (pre @ sys # post) d w = (Some err, w2)"
  using assms by (simp add: Apply_loop_append)

lemma Apply_loop_failure_origin:
  "Apply_loop others xs d w = (Some err, w') \<Longrightarrow>
     \<exists>pre sys post w1. xs = pre @ sys # post \<and> Apply_loop others pre d w = (None, w1)
        \<and> Set_of others sys d w1 = (Some err, w')"
proof (induction xs arbitrary: w)
  case Nil
  then show ?case by simp
next
  case (Cons x xs)
  show ?case
  proof (cases "Set_of others x d w")
    case (Pair r w1)
    show ?thesis
    proof (cases r)
      case None
      with Pair Cons.prems have "Apply_loop others xs d w1 = (Some err, w')" by simp
      from Cons.IH [OF this] obtain pre sys post w2 where
        "xs = pre @ sys # post" "Apply_loop others pre d w1 = (None, w2)"
        "Set_of others sys d w2 = (Some err, w')" by blast
      with Pair None have "x # xs = (x # pre) @ sys # post
          \<and> Apply_loop others (x # pre) d w = (None, w2) \<and> Set_of others sys d w2 = (Some err, w')"
        by simp
      then show ?thesis by blast
    next
      case (Some e)
      with Pair Cons.prems have "e = err" "w1 = w'" by simp_all
      with Pair Some have "x # xs = [] @ x # xs \<and> Apply_loop others [] d w = (None, w)
          \<and> Set_of others x d w = (Some err, w')" by simp
      then show ?thesis by blast
    qed
  qed
qed

text \<open>Once the root is resolved, \<open>Apply\<close> is its loop.\<close>

lemma Apply_resolved:
  assumes "FindCgroupMountpoint w ''cpu'' = Inr mp" and "Stat_ok w (filepath_Dir mp)"
    and "d = \<lparr>root = filepath_Dir mp,
               cgroup = (if Parent spec \<noteq> [] then filepath_Join [Parent spec, Name spec] else Name spec),
               c = spec, pid = p\<rparr>"
  shows "Apply others spec p w =
     (case Apply_loop others subsystems d w of
        (Some err, w1) \<Rightarrow> (Inl err, w1)
      | (None, w1) \<Rightarrow> (Inr d, w1))"
  using assms(1,2) unfolding assms(3) by (simp add: Apply_def Let_def)

lemma Apply_Inr_D:
  assumes "Apply others spec p w = (Inr d, w')"
  shows "\<exists>mp. FindCgroupMountpoint w ''cpu'' = Inr mp \<and> Stat_ok w (filepath_Dir mp)
     \<and> d = \<lparr>root = filepath_Dir mp,
              cgroup = (if Parent spec \<noteq> [] then filepath_Join [Parent spec, Name spec] else Name spec),
              c = spec, pid = p\<rparr>
     \<and> Apply_loop others subsystems d w = (None, w')"
  using assms
  by (auto simp: Apply_def Let_def split: sum.splits if_splits prod.splits option.splits)

text \<open>The filesystem calls change the directories and files only, and never remove a directory.\<close>

lemma MkdirAll_dirs_mono: "dirs w \<subseteq> dirs (snd (MkdirAll w p))"
  by (auto simp: MkdirAll_def split: option.splits)

lemma WriteFile_dirs: "dirs (snd (WriteFile w f x)) = dirs w"
  by (auto simp: WriteFile_def split: option.splits)

lemma writeFile_dirs: "dirs (snd (writeFile dir file x w)) = dirs w"
  by (simp add: writeFile_def WriteFile_dirs)

text \<open>The host that \<open>join\<close> leaves: untouched, after the mkdir, or after the write.\<close>

lemma join_snd:
  "snd (join d s w) =
     (case path d w s of
        Inl err \<Rightarrow> w
      | Inr p \<Rightarrow>
          (case fst (MkdirAll w p) of
             None \<Rightarrow> snd (writeFile p ''cgroup.procs'' (Itoa (pid d)) (snd (MkdirAll w p)))
           | Some err \<Rightarrow>
               if IsExist err then snd (writeFile p ''cgroup.procs'' (Itoa (pid d)) (snd (MkdirAll w p)))
               else snd (MkdirAll w p)))"
  by (simp add: join_def split: sum.splits prod.splits option.splits)

lemma join_dirs_mono: "dirs w \<subseteq> dirs (snd (join d s w))"
  using MkdirAll_dirs_mono
  by (simp add: join_snd writeFile_dirs split: sum.splits option.splits)

lemma cpuGroup_Set_dirs_mono: "dirs w \<subseteq> dirs (snd (cpuGroup_Set d w))"
proof (cases "join d ''cpu'' w")
  case (Pair r w1)
  with join_dirs_mono [of w d "''cpu''"] have "dirs w \<subseteq> dirs w1" by simp
  with Pair show ?thesis
    by (simp add: cpuGroup_Set_def writeFile_dirs split: sum.splits)
qed

lemma perfEventGroup_Set_dirs_mono: "dirs w \<subseteq> dirs (snd (perfEventGroup_Set d w))"
proof (cases "join d ''perf_event'' w")
  case (Pair r w1)
  with join_dirs_mono [of w d "''perf_event''"] have "dirs w \<subseteq> dirs w1" by simp
  with Pair show ?thesis
    by (simp add: perfEventGroup_Set_def split: sum.splits)
qed

lemma Apply_loop_append_None:
  assumes "Apply_loop others (xs @ ys) d w = (None, w')"
  shows "\<exists>w1. Apply_loop others xs d w = (None, w1) \<and> Apply_loop others ys d w1 = (None, w')"
  using assms by (auto simp: Apply_loop_append split: prod.splits option.splits)

text \<open>What the filesystem calls leave alone.\<close>

lemma MkdirAll_frame:
  "mountpoints (snd (MkdirAll w p)) = mountpoints w \<and> initdirs (snd (MkdirAll w p)) = initdirs w
   \<and> files (snd (MkdirAll w p)) = files w \<and> mkdir_fault (snd (MkdirAll w p)) = mkdir_fault w
   \<and> write_fault (snd (MkdirAll w p)) = write_fault w \<and> remove_fault (snd (MkdirAll w p)) = remove_fault w"
  by (simp add: MkdirAll_def split: option.splits)

lemma writeFile_frame:
  "mountpoints (snd (writeFile dir f x w)) = mountpoints w \<and> initdirs (snd (writeFile dir f x w)) = initdirs w
   \<and> mkdir_fault (snd (writeFile dir f x w)) = mkdir_fault w
   \<and> write_fault (snd (writeFile dir f x w)) = write_fault w
   \<and> remove_fault (snd (writeFile dir f x w)) = remove_fault w"
  by (simp add: writeFile_def WriteFile_def split: option.splits)

lemma join_frame:
  "mountpoints (snd (join d s w)) = mountpoints w \<and> initdirs (snd (join d s w)) = initdirs w
   \<and> mkdir_fault (snd (join d s w)) = mkdir_fault w \<and> write_fault (snd (join d s w)) = write_fault w
   \<and> remove_fault (snd (join d s w)) = remove_fault w"
  by (simp add: join_snd writeFile_frame MkdirAll_frame split: sum.splits option.splits)

lemma joinOnly_snd: "snd (joinOnly s d w) = snd (join d s w)"
  by (simp add: joinOnly_def split: prod.splits sum.splits)

lemma cpuGroup_Set_initdirs: "initdirs (snd (cpuGroup_Set d w)) = initdirs w"
proof (cases "join d ''cpu'' w")
  case (Pair r w1)
  with join_frame [of d "''cpu''" w] have "initdirs w1 = initdirs w" by simp
  with Pair show ?thesis
    by (simp add: cpuGroup_Set_def writeFile_frame split: sum.splits)
qed

lemma perfEventGroup_Set_initdirs: "initdirs (snd (perfEventGroup_Set d w)) = initdirs w"
proof (cases "join d ''perf_event'' w")
  case (Pair r w1)
  with join_frame [of d "''perf_event''" w] have "initdirs w1 = initdirs w" by simp
  with Pair show ?thesis
    by (simp add: perfEventGroup_Set_def split: sum.splits)
qed

lemma Set_of_joining_initdirs: "initdirs (snd (Set_of joining sys d w)) = initdirs w"
  by (cases sys) (simp_all add: joinOnly_snd join_frame cpuGroup_Set_initdirs perfEventGroup_Set_initdirs)

lemma Apply_loop_joining_initdirs: "initdirs (snd (Apply_loop joining xs d w)) = initdirs w"
proof (induction xs arbitrary: w)
  case Nil
  show ?case by simp
next
  case (Cons x xs)
  show ?case
  proof (cases "Set_of joining x d w")
    case (Pair r w1)
    with Set_of_joining_initdirs [of x d w] have "initdirs w1 = initdirs w" by simp
    with Pair Cons.IH [of w1] show ?thesis by (cases r) simp_all
  qed
qed

subsection \<open>Running the code on the example hosts\<close>

lemmas path_eval = filepath_Join_def filepath_Dir_def Clean_def clean_elem_def tree_of_def
lemmas fs_eval = MkdirAll_def WriteFile_def writeFile_def Stat_ok_def FindCgroupMountpoint_def
  GetInitCgroupDir_def RemoveAll_def under_def filepath_Abs_def pinned_def top_stays_def
  reaches_def refused_outright_def
lemmas cg_eval = Apply_def subsystems_def before_perf_event_def joinOnly_def cpuGroup_Set_def
  perfEventGroup_Set_def join_def path_def get_def Cleanup_def Itoa_def FormatInt_def utoa.simps
  cleanup_names_def Let_def
lemmas ex_eval = host_ok_def host_no_perf_def host_perf_denied_def host_no_cgroups_def
  host_no_root_def host_cpu_busy_def host_perf_later_def host_no_perf_later_def spec_c1_def
  handle_c1_def cleanup_names_but_perf_event_def handle_escape_def host_etc_def

lemma handle_c1_eq:
  "handle_c1 = \<lparr>root = filepath_Dir ''/cgroup/cpu'',
      cgroup = (if Parent spec_c1 \<noteq> [] then filepath_Join [Parent spec_c1, Name spec_c1] else Name spec_c1),
      c = spec_c1, pid = 4242\<rparr>"
  by (simp add: handle_c1_def spec_c1_def path_eval)

lemma host_ok_root:
  "FindCgroupMountpoint host_ok ''cpu'' = Inr ''/cgroup/cpu'' \<and> Stat_ok host_ok (filepath_Dir ''/cgroup/cpu'')"
  by (simp add: ex_eval path_eval fs_eval cg_eval)

lemma host_no_perf_root:
  "FindCgroupMountpoint host_no_perf ''cpu'' = Inr ''/cgroup/cpu''
   \<and> Stat_ok host_no_perf (filepath_Dir ''/cgroup/cpu'')"
  by (simp add: ex_eval path_eval fs_eval cg_eval)

lemma host_perf_denied_root:
  "FindCgroupMountpoint host_perf_denied ''cpu'' = Inr ''/cgroup/cpu''
   \<and> Stat_ok host_perf_denied (filepath_Dir ''/cgroup/cpu'')"
  by (simp add: ex_eval path_eval fs_eval cg_eval)

lemma Apply_host_ok: "fst (Apply joining spec_c1 4242 host_ok) = Inr handle_c1"
  by (simp add: ex_eval path_eval fs_eval cg_eval)

lemma Apply_host_no_perf: "fst (Apply joining spec_c1 4242 host_no_perf) = Inr handle_c1"
  by (simp add: ex_eval path_eval fs_eval cg_eval)

lemma Apply_host_etc:
  "fst (Apply joining (spec_c1\<lparr>Name := ''../..''\<rparr>) 4242 host_etc) = Inr handle_escape"
  by (simp add: ex_eval path_eval fs_eval cg_eval)

lemma Apply_loop_host_perf_denied:
  "fst (Apply_loop joining before_perf_event handle_c1 host_perf_denied) = None
   \<and> fst (join handle_c1 ''perf_event'' (snd (Apply_loop joining before_perf_event handle_c1 host_perf_denied)))
       = Inl (PathError ''mkdir'' ''/cgroup/perf_event/c1'' EACCES)"
  by (simp add: ex_eval path_eval fs_eval cg_eval)

lemma subsystems_split: "subsystems = before_perf_event @ perfEventGroup # [freezerGroup]"
  by (simp add: subsystems_def before_perf_event_def)

lemma Apply_loop_host_ok: "\<exists>w'. Apply_loop joining subsystems handle_c1 host_ok = (None, w')"
proof -
  have "Apply joining spec_c1 4242 host_ok = (Inr handle_c1, snd (Apply joining spec_c1 4242 host_ok))"
    using Apply_host_ok by (simp add: prod_eq_iff)
  from Apply_Inr_D [OF this] show ?thesis by blast
qed

lemma Apply_loop_host_no_perf:
  "\<exists>w1 w'. Apply_loop joining before_perf_event handle_c1 host_no_perf = (None, w1)
     \<and> Apply_loop joining [perfEventGroup, freezerGroup] handle_c1 w1 = (None, w')"
proof -
  have "Apply joining spec_c1 4242 host_no_perf = (Inr handle_c1, snd (Apply joining spec_c1 4242 host_no_perf))"
    using Apply_host_no_perf by (simp add: prod_eq_iff)
  from Apply_Inr_D [OF this]
  have "Apply_loop joining subsystems handle_c1 host_no_perf
      = (None, snd (Apply joining spec_c1 4242 host_no_perf))"
    by blast
  then have "Apply_loop joining (before_perf_event @ [perfEventGroup, freezerGroup]) handle_c1 host_no_perf
      = (None, snd (Apply joining spec_c1 4242 host_no_perf))"
    by (simp only: subsystems_split)
  from Apply_loop_append_None [OF this] show ?thesis by blast
qed

section \<open>Registering twice\<close>

text \<open>
  C10.  Registering a handler under a name that already has one, through the package-level
  \<open>Register\<close> or through the engine's method, returns an error and changes nothing: the
  registry is the one before the call, so the handler registered first is still the one
  found under that name.
\<close>

theorem Register_existing_name:
  "(globalHandlers name = Some h \<longrightarrow>
      Register globalHandlers name h' =
        (Some (Errorf (''Can't overwrite global handler for command '' @ name)), globalHandlers)
      \<and> snd (Register globalHandlers name h') name = Some h)
   \<and> (handlers eng = Some hs \<and> hs name = Some h \<longrightarrow>
      Engine_Register eng name h' =
        Returned (Some (Errorf (''Can't overwrite handler for command '' @ name)), eng)
      \<and> (\<forall>e eng'. Engine_Register eng name h' = Returned (e, eng') \<longrightarrow>
            e \<noteq> None \<and> handlers eng' = Some hs))"
  by (simp add: Register_def Engine_Register_def)

theorem Register_existing_name_witness:
  "[''create'' \<mapsto> (1::nat)] ''create'' = Some 1
   \<and> Register [''create'' \<mapsto> (1::nat)] ''create'' 2 =
       (Some (Errorf ''Can't overwrite global handler for command create''), [''create'' \<mapsto> 1])
   \<and> snd (Register [''create'' \<mapsto> (1::nat)] ''create'' 2) ''create'' = Some 1
   \<and> Engine_Register \<lparr>eng_root = ''/var/lib/docker'', handlers = Some [''create'' \<mapsto> (1::nat)], eng_id = ''0123456789abcdef''\<rparr> ''create'' 2 =
       Returned (Some (Errorf ''Can't overwrite handler for command create''),
         \<lparr>eng_root = ''/var/lib/docker'', handlers = Some [''create'' \<mapsto> (1::nat)], eng_id = ''0123456789abcdef''\<rparr>)"
  using Register_existing_name [where globalHandlers = "[''create'' \<mapsto> (1::nat)]"
      and name = "''create''" and h = 1 and h' = 2 and hs = "[''create'' \<mapsto> (1::nat)]"
      and eng = "\<lparr>eng_root = ''/var/lib/docker'', handlers = Some [''create'' \<mapsto> (1::nat)], eng_id = ''0123456789abcdef''\<rparr>"]
  by simp

section \<open>Resolving the root\<close>

text \<open>
  C6.  \<open>Apply\<close> asks for the mountpoint of the \<^verbatim>\<open>cpu\<close> subsystem and takes its parent
  directory as the root of the handle, the one root every subsystem's path starts from.
  When the mountpoint is not found, \<open>Apply\<close> returns the error of the lookup and no handle;
  when nothing exists at the root, it returns the error \<^verbatim>\<open>cgroups fs not found\<close> and no
  handle; in both cases the host is untouched.  A handle is returned only with its root
  resolved this way and present.
\<close>

theorem Apply_root_resolution:
  "(FindCgroupMountpoint w ''cpu'' = Inl err \<longrightarrow> Apply others spec p w = (Inl err, w))
   \<and> (FindCgroupMountpoint w ''cpu'' = Inr mp \<and> \<not> Stat_ok w (filepath_Dir mp) \<longrightarrow>
        Apply others spec p w = (Inl (Errorf ''cgroups fs not found''), w))
   \<and> (Apply others spec p w = (Inr d, w') \<longrightarrow>
        (\<exists>mp. FindCgroupMountpoint w ''cpu'' = Inr mp \<and> root d = filepath_Dir mp \<and> Stat_ok w (root d)))"
proof (intro conjI impI)
  assume "FindCgroupMountpoint w ''cpu'' = Inl err"
  then show "Apply others spec p w = (Inl err, w)" by (simp add: Apply_def)
next
  assume "FindCgroupMountpoint w ''cpu'' = Inr mp \<and> \<not> Stat_ok w (filepath_Dir mp)"
  then show "Apply others spec p w = (Inl (Errorf ''cgroups fs not found''), w)"
    by (simp add: Apply_def Let_def)
next
  assume "Apply others spec p w = (Inr d, w')"
  from Apply_Inr_D [OF this] obtain mp where
    "FindCgroupMountpoint w ''cpu'' = Inr mp" "Stat_ok w (filepath_Dir mp)"
    "d = \<lparr>root = filepath_Dir mp,
           cgroup = (if Parent spec \<noteq> [] then filepath_Join [Parent spec, Name spec] else Name spec),
           c = spec, pid = p\<rparr>"
    by blast
  then have "FindCgroupMountpoint w ''cpu'' = Inr mp \<and> root d = filepath_Dir mp \<and> Stat_ok w (root d)"
    by simp
  then show "\<exists>mp. FindCgroupMountpoint w ''cpu'' = Inr mp \<and> root d = filepath_Dir mp \<and> Stat_ok w (root d)" ..
qed

theorem Apply_root_resolution_witness:
  "FindCgroupMountpoint host_no_cgroups ''cpu'' = Inl ErrNotFound
   \<and> Apply joining spec_c1 4242 host_no_cgroups = (Inl ErrNotFound, host_no_cgroups)
   \<and> FindCgroupMountpoint host_no_root ''cpu'' = Inr ''/cgroup/cpu''
   \<and> \<not> Stat_ok host_no_root (filepath_Dir ''/cgroup/cpu'')
   \<and> Apply joining spec_c1 4242 host_no_root = (Inl (Errorf ''cgroups fs not found''), host_no_root)
   \<and> fst (Apply joining spec_c1 4242 host_ok) = Inr handle_c1
   \<and> (\<exists>mp. FindCgroupMountpoint host_ok ''cpu'' = Inr mp \<and> root handle_c1 = filepath_Dir mp
        \<and> Stat_ok host_ok (root handle_c1))"
proof -
  have a: "FindCgroupMountpoint host_no_cgroups ''cpu'' = Inl ErrNotFound"
    by (simp add: ex_eval fs_eval)
  have b: "FindCgroupMountpoint host_no_root ''cpu'' = Inr ''/cgroup/cpu''
      \<and> \<not> Stat_ok host_no_root (filepath_Dir ''/cgroup/cpu'')"
    by (simp add: ex_eval fs_eval path_eval cleanup_names_def)
  have c: "Apply joining spec_c1 4242 host_ok = (Inr handle_c1, snd (Apply joining spec_c1 4242 host_ok))"
    using Apply_host_ok by (simp add: prod_eq_iff)
  from a Apply_root_resolution [where w = host_no_cgroups and err = ErrNotFound and others = joining
      and spec = spec_c1 and p = 4242]
  have a': "Apply joining spec_c1 4242 host_no_cgroups = (Inl ErrNotFound, host_no_cgroups)" by blast
  from b Apply_root_resolution [where w = host_no_root and mp = "''/cgroup/cpu''" and others = joining
      and spec = spec_c1 and p = 4242]
  have b': "Apply joining spec_c1 4242 host_no_root = (Inl (Errorf ''cgroups fs not found''), host_no_root)"
    by blast
  from c Apply_root_resolution [where w = host_ok and others = joining and spec = spec_c1 and p = 4242
      and d = handle_c1 and w' = "snd (Apply joining spec_c1 4242 host_ok)"]
  have c': "\<exists>mp. FindCgroupMountpoint host_ok ''cpu'' = Inr mp \<and> root handle_c1 = filepath_Dir mp
        \<and> Stat_ok host_ok (root handle_c1)" by blast
  from a a' b b' c' Apply_host_ok show ?thesis by simp
qed

section \<open>The order of the subsystems\<close>

text \<open>
  C7.  The subsystems are the fixed list devices, memory, cpu, cpuset, cpuacct, blkio,
  perf-event, freezer, a constant and not a registry.  \<open>Apply\<close> goes through it from left
  to right: the subsystem at position \<open>i\<close> is applied to the host that the subsystems
  before it have left, and only if all of them succeeded; a successful \<open>Apply\<close> has
  applied the whole list.
\<close>

theorem subsystems_fixed_order:
  "subsystems = [devicesGroup, memoryGroup, cpuGroup, cpusetGroup, cpuacctGroup, blkioGroup,
                 perfEventGroup, freezerGroup]
   \<and> (\<forall>i < length subsystems.
        Apply_loop others (take (Suc i) subsystems) d w =
          (case Apply_loop others (take i subsystems) d w of
             (Some err, w1) \<Rightarrow> (Some err, w1)
           | (None, w1) \<Rightarrow> Set_of others (subsystems ! i) d w1))
   \<and> (Apply others spec p w = (Inr d, w') \<longrightarrow>
        Apply_loop others (take (length subsystems) subsystems) d w = (None, w'))"
proof (intro conjI allI impI)
  show "subsystems = [devicesGroup, memoryGroup, cpuGroup, cpusetGroup, cpuacctGroup, blkioGroup,
                 perfEventGroup, freezerGroup]"
    by (simp add: subsystems_def)
next
  fix i assume "i < length subsystems"
  then have "take (Suc i) subsystems = take i subsystems @ [subsystems ! i]"
    by (rule take_Suc_conv_app_nth)
  then show "Apply_loop others (take (Suc i) subsystems) d w =
          (case Apply_loop others (take i subsystems) d w of
             (Some err, w1) \<Rightarrow> (Some err, w1)
           | (None, w1) \<Rightarrow> Set_of others (subsystems ! i) d w1)"
    by (simp add: Apply_loop_append split: prod.splits option.splits)
next
  assume "Apply others spec p w = (Inr d, w')"
  from Apply_Inr_D [OF this]
  show "Apply_loop others (take (length subsystems) subsystems) d w = (None, w')" by auto
qed

theorem subsystems_fixed_order_witness:
  "(2::nat) < length subsystems \<and> subsystems ! 2 = cpuGroup
   \<and> Apply_loop joining (take (Suc 2) subsystems) handle_c1 host_ok =
          (case Apply_loop joining (take 2 subsystems) handle_c1 host_ok of
             (Some err, w1) \<Rightarrow> (Some err, w1)
           | (None, w1) \<Rightarrow> cpuGroup_Set handle_c1 w1)
   \<and> fst (Apply joining spec_c1 4242 host_ok) = Inr handle_c1
   \<and> fst (Apply_loop joining (take (length subsystems) subsystems) handle_c1 host_ok) = None"
proof -
  have len: "(2::nat) < length subsystems \<and> subsystems ! 2 = cpuGroup" by (simp add: subsystems_def)
  have c: "Apply joining spec_c1 4242 host_ok = (Inr handle_c1, snd (Apply joining spec_c1 4242 host_ok))"
    using Apply_host_ok by (simp add: prod_eq_iff)
  note th = subsystems_fixed_order [where others = joining and d = handle_c1 and w = host_ok
      and spec = spec_c1 and p = 4242 and w' = "snd (Apply joining spec_c1 4242 host_ok)"]
  from len have eq: "Set_of joining (subsystems ! 2) = cpuGroup_Set" by simp
  from th len have "Apply_loop joining (take (Suc 2) subsystems) handle_c1 host_ok =
          (case Apply_loop joining (take 2 subsystems) handle_c1 host_ok of
             (Some err, w1) \<Rightarrow> (Some err, w1)
           | (None, w1) \<Rightarrow> Set_of joining (subsystems ! 2) handle_c1 w1)" by blast
  then have step: "Apply_loop joining (take (Suc 2) subsystems) handle_c1 host_ok =
          (case Apply_loop joining (take 2 subsystems) handle_c1 host_ok of
             (Some err, w1) \<Rightarrow> (Some err, w1)
           | (None, w1) \<Rightarrow> cpuGroup_Set handle_c1 w1)" unfolding eq .
  from th c have "fst (Apply_loop joining (take (length subsystems) subsystems) handle_c1 host_ok) = None"
    by simp
  with step len Apply_host_ok show ?thesis by blast
qed

section \<open>The perf-event subsystem is optional\<close>

lemma join_not_mounted:
  "GetInitCgroupDir w s = Inl err \<Longrightarrow> join d s w = (Inl err, w)"
  by (simp add: join_def path_def)

text \<open>
  C3.  When the host has no perf-event hierarchy (the lookup of its init path answers
  \<open>ErrNotFound\<close>), the join of perf-event fails with that error, its \<open>Set\<close> swallows it and
  changes nothing, and \<open>Apply\<close> goes on with the freezer subsystem: it succeeds exactly when
  the freezer does.  Any other error of the perf-event join is returned by its \<open>Set\<close> and
  then by \<open>Apply\<close>.
\<close>

theorem perf_event_not_mounted_tolerated:
  "(GetInitCgroupDir w1 ''perf_event'' = Inl ErrNotFound \<longrightarrow>
      join d ''perf_event'' w1 = (Inl ErrNotFound, w1) \<and> perfEventGroup_Set d w1 = (None, w1))
   \<and> (join d ''perf_event'' w1 = (Inl err, w2) \<and> err \<noteq> ErrNotFound \<longrightarrow>
        perfEventGroup_Set d w1 = (Some err, w2))
   \<and> (FindCgroupMountpoint w ''cpu'' = Inr mp \<and> Stat_ok w (filepath_Dir mp)
        \<and> d = \<lparr>root = filepath_Dir mp,
                 cgroup = (if Parent spec \<noteq> [] then filepath_Join [Parent spec, Name spec] else Name spec),
                 c = spec, pid = p\<rparr>
        \<and> Apply_loop others before_perf_event d w = (None, w1) \<longrightarrow>
          (GetInitCgroupDir w1 ''perf_event'' = Inl ErrNotFound \<longrightarrow>
             Apply others spec p w =
               (case Set_of others freezerGroup d w1 of
                  (Some e, w3) \<Rightarrow> (Inl e, w3)
                | (None, w3) \<Rightarrow> (Inr d, w3)))
        \<and> (join d ''perf_event'' w1 = (Inl err, w2) \<and> err \<noteq> ErrNotFound \<longrightarrow>
             Apply others spec p w = (Inl err, w2)))"
proof -
  have swallow: "perfEventGroup_Set d w1 = (None, w1) \<and> join d ''perf_event'' w1 = (Inl ErrNotFound, w1)"
    if "GetInitCgroupDir w1 ''perf_event'' = Inl ErrNotFound"
    using join_not_mounted [OF that, of d] by (simp add: perfEventGroup_Set_def)
  have other: "perfEventGroup_Set d w1 = (Some err, w2)"
    if "join d ''perf_event'' w1 = (Inl err, w2) \<and> err \<noteq> ErrNotFound"
    using that by (simp add: perfEventGroup_Set_def)
  have loop: "Apply others spec p w =
      (case Apply_loop others [perfEventGroup, freezerGroup] d w1 of
         (Some e, w3) \<Rightarrow> (Inl e, w3)
       | (None, w3) \<Rightarrow> (Inr d, w3))"
    if r: "FindCgroupMountpoint w ''cpu'' = Inr mp" "Stat_ok w (filepath_Dir mp)"
      "d = \<lparr>root = filepath_Dir mp,
             cgroup = (if Parent spec \<noteq> [] then filepath_Join [Parent spec, Name spec] else Name spec),
             c = spec, pid = p\<rparr>"
      and pre: "Apply_loop others before_perf_event d w = (None, w1)"
  proof -
    have "Apply_loop others subsystems d w = Apply_loop others [perfEventGroup, freezerGroup] d w1"
      using pre by (simp add: subsystems_split Apply_loop_append)
    with Apply_resolved [OF r, of others] show ?thesis by simp
  qed
  show ?thesis
  proof (intro conjI impI)
    assume "GetInitCgroupDir w1 ''perf_event'' = Inl ErrNotFound"
    from swallow [OF this] show "join d ''perf_event'' w1 = (Inl ErrNotFound, w1)"
      and "perfEventGroup_Set d w1 = (None, w1)" by simp_all
  next
    assume "join d ''perf_event'' w1 = (Inl err, w2) \<and> err \<noteq> ErrNotFound"
    from other [OF this] show "perfEventGroup_Set d w1 = (Some err, w2)" .
  next
    assume a: "FindCgroupMountpoint w ''cpu'' = Inr mp \<and> Stat_ok w (filepath_Dir mp)
        \<and> d = \<lparr>root = filepath_Dir mp,
                 cgroup = (if Parent spec \<noteq> [] then filepath_Join [Parent spec, Name spec] else Name spec),
                 c = spec, pid = p\<rparr>
        \<and> Apply_loop others before_perf_event d w = (None, w1)"
      and b: "GetInitCgroupDir w1 ''perf_event'' = Inl ErrNotFound"
    from a have l: "Apply others spec p w =
      (case Apply_loop others [perfEventGroup, freezerGroup] d w1 of
         (Some e, w3) \<Rightarrow> (Inl e, w3)
       | (None, w3) \<Rightarrow> (Inr d, w3))" by (elim conjE) (rule loop, assumption+)
    from swallow [OF b] have "Apply_loop others [perfEventGroup, freezerGroup] d w1
        = (case Set_of others freezerGroup d w1 of (Some e, w3) \<Rightarrow> (Some e, w3) | (None, w3) \<Rightarrow> (None, w3))"
      by (simp split: prod.splits option.splits)
    with l show "Apply others spec p w =
               (case Set_of others freezerGroup d w1 of
                  (Some e, w3) \<Rightarrow> (Inl e, w3)
                | (None, w3) \<Rightarrow> (Inr d, w3))"
      by (simp split: prod.splits option.splits)
  next
    assume a: "FindCgroupMountpoint w ''cpu'' = Inr mp \<and> Stat_ok w (filepath_Dir mp)
        \<and> d = \<lparr>root = filepath_Dir mp,
                 cgroup = (if Parent spec \<noteq> [] then filepath_Join [Parent spec, Name spec] else Name spec),
                 c = spec, pid = p\<rparr>
        \<and> Apply_loop others before_perf_event d w = (None, w1)"
      and b: "join d ''perf_event'' w1 = (Inl err, w2) \<and> err \<noteq> ErrNotFound"
    from a have l: "Apply others spec p w =
      (case Apply_loop others [perfEventGroup, freezerGroup] d w1 of
         (Some e, w3) \<Rightarrow> (Inl e, w3)
       | (None, w3) \<Rightarrow> (Inr d, w3))" by (elim conjE) (rule loop, assumption+)
    from other [OF b] l show "Apply others spec p w = (Inl err, w2)" by simp
  qed
qed

theorem perf_event_not_mounted_tolerated_witness:
  "GetInitCgroupDir (snd (Apply_loop joining before_perf_event handle_c1 host_no_perf)) ''perf_event''
      = Inl ErrNotFound
   \<and> fst (perfEventGroup_Set handle_c1 (snd (Apply_loop joining before_perf_event handle_c1 host_no_perf)))
      = None
   \<and> fst (Apply joining spec_c1 4242 host_no_perf) = Inr handle_c1
   \<and> fst (Apply_loop joining before_perf_event handle_c1 host_perf_denied) = None
   \<and> fst (join handle_c1 ''perf_event'' (snd (Apply_loop joining before_perf_event handle_c1 host_perf_denied)))
      = Inl (PathError ''mkdir'' ''/cgroup/perf_event/c1'' EACCES)
   \<and> fst (perfEventGroup_Set handle_c1 (snd (Apply_loop joining before_perf_event handle_c1 host_perf_denied)))
      = Some (PathError ''mkdir'' ''/cgroup/perf_event/c1'' EACCES)
   \<and> fst (Apply joining spec_c1 4242 host_perf_denied)
      = Inl (PathError ''mkdir'' ''/cgroup/perf_event/c1'' EACCES)"
proof -
  let ?w1 = "snd (Apply_loop joining before_perf_event handle_c1 host_no_perf)"
  let ?v1 = "snd (Apply_loop joining before_perf_event handle_c1 host_perf_denied)"
  let ?e = "PathError ''mkdir'' ''/cgroup/perf_event/c1'' EACCES"
  let ?v2 = "snd (join handle_c1 ''perf_event'' ?v1)"
  have nf: "GetInitCgroupDir ?w1 ''perf_event'' = Inl ErrNotFound"
    by (simp add: GetInitCgroupDir_def Apply_loop_joining_initdirs host_no_perf_def)
  from Apply_loop_host_no_perf
  have pre: "Apply_loop joining before_perf_event handle_c1 host_no_perf = (None, ?w1)" by auto
  have pre': "Apply_loop joining before_perf_event handle_c1 host_perf_denied = (None, ?v1)"
    using Apply_loop_host_perf_denied by (simp add: prod_eq_iff)
  have j: "join handle_c1 ''perf_event'' ?v1 = (Inl ?e, ?v2) \<and> ?e \<noteq> ErrNotFound"
    using Apply_loop_host_perf_denied by (simp add: prod_eq_iff)
  note a = perf_event_not_mounted_tolerated [where w = host_no_perf and ?w1.0 = ?w1 and d = handle_c1
      and others = joining and spec = spec_c1 and p = 4242 and mp = "''/cgroup/cpu''"]
  note b = perf_event_not_mounted_tolerated [where w = host_perf_denied and ?w1.0 = ?v1 and d = handle_c1
      and others = joining and spec = spec_c1 and p = 4242 and mp = "''/cgroup/cpu''"
      and err = ?e and ?w2.0 = ?v2]
  from a nf have 1: "fst (perfEventGroup_Set handle_c1 ?w1) = None" by simp
  from b j have 2: "fst (perfEventGroup_Set handle_c1 ?v1) = Some ?e" by simp
  from b j pre' host_perf_denied_root handle_c1_eq
  have 3: "fst (Apply joining spec_c1 4242 host_perf_denied) = Inl ?e" by simp
  from nf 1 2 3 Apply_host_no_perf Apply_loop_host_perf_denied show ?thesis by simp
qed

section \<open>A failed Apply\<close>

text \<open>
  C1, as the specification has it, fails on the code.  On \<open>host_perf_denied\<close> the
  subsystems before perf-event are joined, cpu among them, then the directory of
  perf-event cannot be created.  \<open>Apply\<close> returns the error of \<^verbatim>\<open>os.MkdirAll\<close> as it is,
  without the name of the subsystem around it, and the cpu directory made before is still
  there, with the pid and the shares written.
\<close>

theorem Apply_failure_leaves_directories:
  "fst (Apply joining spec_c1 4242 host_perf_denied)
     = Inl (PathError ''mkdir'' ''/cgroup/perf_event/c1'' EACCES)
   \<and> ''/cgroup/cpu/c1'' \<in> dirs (snd (Apply joining spec_c1 4242 host_perf_denied))
   \<and> files (snd (Apply joining spec_c1 4242 host_perf_denied)) ''/cgroup/cpu/c1/cgroup.procs''
       = Some ''4242''
   \<and> files (snd (Apply joining spec_c1 4242 host_perf_denied)) ''/cgroup/cpu/c1/cpu.shares''
       = Some ''512''"
  by (simp add: ex_eval path_eval fs_eval cg_eval)

text \<open>
  C1, amended.  When the \<open>Set\<close> of a subsystem returns an error (perf-event's own \<open>Set\<close>
  has swallowed \<open>ErrNotFound\<close> by then), \<open>Apply\<close> stops there and returns that very error
  and no handle.  It removes nothing: the host is the one the failing \<open>Set\<close> has left,
  and the \<open>Set\<close> of cpu and of perf-event never remove a directory.  Every error that
  \<open>Apply\<close> returns is the error of the mountpoint lookup, the error
  \<^verbatim>\<open>cgroups fs not found\<close>, or the error of the first \<open>Set\<close> that failed.
\<close>

theorem Apply_failure_no_rollback:
  "(FindCgroupMountpoint w ''cpu'' = Inr mp \<and> Stat_ok w (filepath_Dir mp)
      \<and> d = \<lparr>root = filepath_Dir mp,
               cgroup = (if Parent spec \<noteq> [] then filepath_Join [Parent spec, Name spec] else Name spec),
               c = spec, pid = p\<rparr>
      \<and> subsystems = pre @ sys # post
      \<and> Apply_loop others pre d w = (None, w1)
      \<and> Set_of others sys d w1 = (Some err, w2) \<longrightarrow>
        Apply others spec p w = (Inl err, w2))
   \<and> (Apply others spec p w = (Inl err, w') \<longrightarrow>
        (FindCgroupMountpoint w ''cpu'' = Inl err \<and> w' = w)
        \<or> (\<exists>mp. FindCgroupMountpoint w ''cpu'' = Inr mp \<and> \<not> Stat_ok w (filepath_Dir mp)
              \<and> err = Errorf ''cgroups fs not found'' \<and> w' = w)
        \<or> (\<exists>mp pre sys post w1.
              FindCgroupMountpoint w ''cpu'' = Inr mp \<and> Stat_ok w (filepath_Dir mp)
              \<and> subsystems = pre @ sys # post
              \<and> Apply_loop others pre
                   \<lparr>root = filepath_Dir mp,
                     cgroup = (if Parent spec \<noteq> [] then filepath_Join [Parent spec, Name spec] else Name spec),
                     c = spec, pid = p\<rparr> w = (None, w1)
              \<and> Set_of others sys
                   \<lparr>root = filepath_Dir mp,
                     cgroup = (if Parent spec \<noteq> [] then filepath_Join [Parent spec, Name spec] else Name spec),
                     c = spec, pid = p\<rparr> w1 = (Some err, w')))
   \<and> dirs w1 \<subseteq> dirs (snd (cpuGroup_Set d w1))
   \<and> dirs w1 \<subseteq> dirs (snd (perfEventGroup_Set d w1))"
proof (intro conjI impI)
  assume a: "FindCgroupMountpoint w ''cpu'' = Inr mp \<and> Stat_ok w (filepath_Dir mp)
      \<and> d = \<lparr>root = filepath_Dir mp,
               cgroup = (if Parent spec \<noteq> [] then filepath_Join [Parent spec, Name spec] else Name spec),
               c = spec, pid = p\<rparr>
      \<and> subsystems = pre @ sys # post
      \<and> Apply_loop others pre d w = (None, w1)
      \<and> Set_of others sys d w1 = (Some err, w2)"
  then have "Apply_loop others (pre @ sys # post) d w = (Some err, w2)"
    by (elim conjE) (rule Apply_loop_stops, assumption+)
  with a have l: "Apply_loop others subsystems d w = (Some err, w2)" by (elim conjE) simp
  from a have "Apply others spec p w =
     (case Apply_loop others subsystems d w of
        (Some err, w1) \<Rightarrow> (Inl err, w1)
      | (None, w1) \<Rightarrow> (Inr d, w1))"
    by (elim conjE) (rule Apply_resolved, assumption+)
  with l show "Apply others spec p w = (Inl err, w2)" by simp
next
  assume a: "Apply others spec p w = (Inl err, w')"
  show "(FindCgroupMountpoint w ''cpu'' = Inl err \<and> w' = w)
        \<or> (\<exists>mp. FindCgroupMountpoint w ''cpu'' = Inr mp \<and> \<not> Stat_ok w (filepath_Dir mp)
              \<and> err = Errorf ''cgroups fs not found'' \<and> w' = w)
        \<or> (\<exists>mp pre sys post w1.
              FindCgroupMountpoint w ''cpu'' = Inr mp \<and> Stat_ok w (filepath_Dir mp)
              \<and> subsystems = pre @ sys # post
              \<and> Apply_loop others pre
                   \<lparr>root = filepath_Dir mp,
                     cgroup = (if Parent spec \<noteq> [] then filepath_Join [Parent spec, Name spec] else Name spec),
                     c = spec, pid = p\<rparr> w = (None, w1)
              \<and> Set_of others sys
                   \<lparr>root = filepath_Dir mp,
                     cgroup = (if Parent spec \<noteq> [] then filepath_Join [Parent spec, Name spec] else Name spec),
                     c = spec, pid = p\<rparr> w1 = (Some err, w'))"
  proof (cases "FindCgroupMountpoint w ''cpu''")
    case (Inl e)
    with a show ?thesis by (simp add: Apply_def)
  next
    case (Inr m)
    show ?thesis
    proof (cases "Stat_ok w (filepath_Dir m)")
      case False
      with Inr a show ?thesis by (auto simp: Apply_def Let_def)
    next
      case True
      define d0 where "d0 = \<lparr>root = filepath_Dir m,
                     cgroup = (if Parent spec \<noteq> [] then filepath_Join [Parent spec, Name spec] else Name spec),
                     c = spec, pid = p\<rparr>"
      from Apply_resolved [OF Inr True d0_def, of others] a
      have "Apply_loop others subsystems d0 w = (Some err, w')"
        by (auto split: prod.splits option.splits)
      from Apply_loop_failure_origin [OF this] obtain pre sys post w1 where
        "subsystems = pre @ sys # post" "Apply_loop others pre d0 w = (None, w1)"
        "Set_of others sys d0 w1 = (Some err, w')" by blast
      with Inr True have "FindCgroupMountpoint w ''cpu'' = Inr m \<and> Stat_ok w (filepath_Dir m)
              \<and> subsystems = pre @ sys # post
              \<and> Apply_loop others pre d0 w = (None, w1)
              \<and> Set_of others sys d0 w1 = (Some err, w')" by simp
      then show ?thesis unfolding d0_def by blast
    qed
  qed
next
  show "dirs w1 \<subseteq> dirs (snd (cpuGroup_Set d w1))" by (rule cpuGroup_Set_dirs_mono)
next
  show "dirs w1 \<subseteq> dirs (snd (perfEventGroup_Set d w1))" by (rule perfEventGroup_Set_dirs_mono)
qed

theorem Apply_failure_no_rollback_witness:
  "subsystems = before_perf_event @ perfEventGroup # [freezerGroup]
   \<and> fst (Apply_loop joining before_perf_event handle_c1 host_perf_denied) = None
   \<and> fst (Set_of joining perfEventGroup handle_c1
            (snd (Apply_loop joining before_perf_event handle_c1 host_perf_denied)))
       = Some (PathError ''mkdir'' ''/cgroup/perf_event/c1'' EACCES)
   \<and> Apply joining spec_c1 4242 host_perf_denied
       = (Inl (PathError ''mkdir'' ''/cgroup/perf_event/c1'' EACCES),
          snd (Set_of joining perfEventGroup handle_c1
                (snd (Apply_loop joining before_perf_event handle_c1 host_perf_denied))))
   \<and> FindCgroupMountpoint host_no_cgroups ''cpu'' = Inl ErrNotFound
   \<and> Apply joining spec_c1 4242 host_no_cgroups = (Inl ErrNotFound, host_no_cgroups)"
proof -
  let ?v1 = "snd (Apply_loop joining before_perf_event handle_c1 host_perf_denied)"
  let ?e = "PathError ''mkdir'' ''/cgroup/perf_event/c1'' EACCES"
  let ?v2 = "snd (Set_of joining perfEventGroup handle_c1 ?v1)"
  have pre: "Apply_loop joining before_perf_event handle_c1 host_perf_denied = (None, ?v1)"
    using Apply_loop_host_perf_denied by (simp add: prod_eq_iff)
  have s: "Set_of joining perfEventGroup handle_c1 ?v1 = (Some ?e, ?v2)"
    using Apply_loop_host_perf_denied
    by (simp add: prod_eq_iff perfEventGroup_Set_def split: prod.splits sum.splits)
  have n: "Apply joining spec_c1 4242 host_no_cgroups = (Inl ErrNotFound, host_no_cgroups)
      \<and> FindCgroupMountpoint host_no_cgroups ''cpu'' = Inl ErrNotFound"
    by (simp add: Apply_def ex_eval fs_eval)
  note a = Apply_failure_no_rollback [where w = host_perf_denied and mp = "''/cgroup/cpu''"
      and d = handle_c1 and spec = spec_c1 and p = 4242 and pre = before_perf_event
      and sys = perfEventGroup and post = "[freezerGroup]" and others = joining
      and ?w1.0 = ?v1 and err = ?e and ?w2.0 = ?v2]
  from a host_perf_denied_root handle_c1_eq subsystems_split pre s
  have r: "Apply joining spec_c1 4242 host_perf_denied = (Inl ?e, ?v2)" by blast
  from Apply_loop_host_perf_denied
  have f1: "fst (Apply_loop joining before_perf_event handle_c1 host_perf_denied) = None" by simp
  from s have f2: "fst (Set_of joining perfEventGroup handle_c1 ?v1) = Some ?e" by (metis fst_conv)
  from subsystems_split f1 f2 r n show ?thesis by blast
qed

section \<open>Cleanup\<close>

lemma under_refl: "under w p p"
  by (simp add: under_def)

lemma under_cwd: "cwd w' = cwd w \<Longrightarrow> under w' = under w"
  by (intro ext) (simp add: under_def filepath_Abs_def)

lemma pinned_iff:
  "pinned w q \<longleftrightarrow> (\<exists>(r, en) \<in> set (remove_fault w). Stat_ok w r \<and> under w q r)"
  by (simp add: pinned_def list_ex_iff)

text \<open>What the kernel refuses to remove is pinned, and so is whatever it lies below.\<close>

lemma refused_pinned:
  "(r, en) \<in> set (remove_fault w) \<Longrightarrow> Stat_ok w r \<Longrightarrow> under w q r \<Longrightarrow> pinned w q"
  by (auto simp: pinned_iff)

lemma RemoveAll_frame:
  "remove_fault (snd (RemoveAll w p)) = remove_fault w \<and> cwd (snd (RemoveAll w p)) = cwd w
   \<and> dot_refused (snd (RemoveAll w p)) = dot_refused w
   \<and> initdirs (snd (RemoveAll w p)) = initdirs w"
  by (simp add: RemoveAll_def Let_def split: option.splits prod.splits)

lemma reaches_cwd: "cwd w' = cwd w \<Longrightarrow> dot_refused w' = dot_refused w \<Longrightarrow> reaches w' = reaches w"
  by (intro ext) (simp add: reaches_def under_def top_stays_def filepath_Abs_def refused_outright_def)

lemma RemoveAll_entry:
  "p \<noteq> [] \<Longrightarrow>
     (q \<in> dirs (snd (RemoveAll w p)) \<longleftrightarrow> q \<in> dirs w \<and> (\<not> reaches w p q \<or> pinned w q))
     \<and> files (snd (RemoveAll w p)) q = (if reaches w p q \<and> \<not> pinned w q then None else files w q)"
  by (simp add: RemoveAll_def reaches_def Let_def split: option.splits prod.splits)

lemma RemoveAll_under: "under (snd (RemoveAll w p)) = under w"
  by (rule under_cwd) (simp add: RemoveAll_frame)

lemma RemoveAll_reaches: "reaches (snd (RemoveAll w p)) = reaches w"
  by (rule reaches_cwd) (simp_all add: RemoveAll_frame)

lemma RemoveAll_Stat_refused:
  assumes "(r, en) \<in> set (remove_fault w)"
  shows "Stat_ok (snd (RemoveAll w p)) r \<longleftrightarrow> Stat_ok w r"
proof (cases "p = []")
  case True
  then show ?thesis by (simp add: RemoveAll_def)
next
  case False
  show ?thesis
  proof (cases "Stat_ok w r")
    case True
    with assms have "pinned w r" by (rule refused_pinned) (rule under_refl)
    with True False show ?thesis by (simp add: Stat_ok_def RemoveAll_entry)
  next
    case no: False
    with False show ?thesis by (simp add: Stat_ok_def RemoveAll_entry)
  qed
qed

lemma RemoveAll_pinned: "pinned (snd (RemoveAll w p)) = pinned w"
proof (intro ext)
  fix q
  have "(\<exists>(r, en) \<in> set (remove_fault w). Stat_ok (snd (RemoveAll w p)) r \<and> under w q r)
      \<longleftrightarrow> (\<exists>(r, en) \<in> set (remove_fault w). Stat_ok w r \<and> under w q r)"
    using RemoveAll_Stat_refused [of _ _ w p] by blast
  then show "pinned (snd (RemoveAll w p)) q = pinned w q"
    by (simp add: pinned_iff RemoveAll_frame RemoveAll_under)
qed

text \<open>The call fails exactly when something at or below the path is pinned or the top stays.\<close>

lemma RemoveAll_fails_iff:
  assumes "p \<noteq> []"
  shows "fst (RemoveAll w p) \<noteq> None \<longleftrightarrow> pinned w p \<or> top_stays w p \<noteq> None"
proof -
  have "find (\<lambda>(r, en). Stat_ok w r \<and> under w p r) (remove_fault w) = None \<longleftrightarrow> \<not> pinned w p"
    by (auto simp: find_None_iff pinned_def list_ex_iff)
  with assms show ?thesis
    by (auto simp: RemoveAll_def refused_outright_def top_stays_def Let_def
             split: option.splits prod.splits)
qed

lemma Cleanup_loop_reaches: "reaches (Cleanup_loop ps w) = reaches w"
  by (induction ps arbitrary: w) (simp_all add: RemoveAll_reaches)

lemma Cleanup_loop_pinned: "pinned (Cleanup_loop ps w) = pinned w"
  by (induction ps arbitrary: w) (simp_all add: RemoveAll_pinned)

lemma Cleanup_loop_shrinks:
  "(q \<notin> dirs w \<longrightarrow> q \<notin> dirs (Cleanup_loop ps w)) \<and> (files w q = None \<longrightarrow> files (Cleanup_loop ps w) q = None)"
proof (induction ps arbitrary: w)
  case Nil
  show ?case by simp
next
  case (Cons p ps)
  show ?case
  proof (cases "p = []")
    case True
    with Cons.IH [of w] show ?thesis by simp
  next
    case False
    with RemoveAll_entry [of p q w]
    have "(q \<notin> dirs w \<longrightarrow> q \<notin> dirs (snd (RemoveAll w p)))
        \<and> (files w q = None \<longrightarrow> files (snd (RemoveAll w p)) q = None)" by simp
    with Cons.IH [of "snd (RemoveAll w p)"] False show ?thesis by simp
  qed
qed

lemma Cleanup_loop_removes:
  "p \<in> set ps \<Longrightarrow> p \<noteq> [] \<Longrightarrow> reaches w p q \<Longrightarrow> \<not> pinned w q \<Longrightarrow>
     q \<notin> dirs (Cleanup_loop ps w) \<and> files (Cleanup_loop ps w) q = None"
proof (induction ps arbitrary: w)
  case Nil
  then show ?case by simp
next
  case (Cons x ps)
  show ?case
  proof (cases "x = p")
    case True
    from Cons.prems(2,3,4) RemoveAll_entry [of p q w]
    have "q \<notin> dirs (snd (RemoveAll w p)) \<and> files (snd (RemoveAll w p)) q = None" by simp
    with Cleanup_loop_shrinks [of q "snd (RemoveAll w p)" ps]
    have "q \<notin> dirs (Cleanup_loop ps (snd (RemoveAll w p)))
        \<and> files (Cleanup_loop ps (snd (RemoveAll w p))) q = None" by simp
    with True Cons.prems(2) show ?thesis by simp
  next
    case False
    with Cons.prems have "p \<in> set ps" by simp
    moreover have "reaches (if x \<noteq> [] then snd (RemoveAll w x) else w) p q"
      using Cons.prems(3) by (simp add: RemoveAll_reaches)
    moreover have "\<not> pinned (if x \<noteq> [] then snd (RemoveAll w x) else w) q"
      using Cons.prems(4) by (simp add: RemoveAll_pinned)
    ultimately show ?thesis
      using Cons.IH [of "if x \<noteq> [] then snd (RemoveAll w x) else w"] Cons.prems(2) by simp
  qed
qed

lemma Cleanup_loop_keeps:
  "pinned w q \<or> (\<forall>p \<in> set ps. p \<noteq> [] \<longrightarrow> \<not> reaches w p q) \<Longrightarrow>
     (q \<in> dirs (Cleanup_loop ps w) \<longleftrightarrow> q \<in> dirs w) \<and> files (Cleanup_loop ps w) q = files w q"
proof (induction ps arbitrary: w)
  case Nil
  show ?case by simp
next
  case (Cons x ps)
  show ?case
  proof (cases "x = []")
    case True
    with Cons.prems have "pinned w q \<or> (\<forall>p \<in> set ps. p \<noteq> [] \<longrightarrow> \<not> reaches w p q)" by auto
    from Cons.IH [OF this] True show ?thesis by simp
  next
    case False
    let ?w1 = "snd (RemoveAll w x)"
    from Cons.prems False have "pinned w q \<or> \<not> reaches w x q" by auto
    with False RemoveAll_entry [of x q w]
    have 1: "(q \<in> dirs ?w1 \<longleftrightarrow> q \<in> dirs w) \<and> files ?w1 q = files w q" by auto
    from Cons.prems have "pinned ?w1 q \<or> (\<forall>p \<in> set ps. p \<noteq> [] \<longrightarrow> \<not> reaches ?w1 p q)"
      by (auto simp: RemoveAll_pinned RemoveAll_reaches)
    from Cons.IH [OF this] 1 False show ?thesis by simp
  qed
qed

lemma get_path: "path d w s = Inr p \<Longrightarrow> get d w s = p"
  by (simp add: get_def)

lemma get_unresolved: "GetInitCgroupDir w s = Inl err \<Longrightarrow> get d w s = []"
  by (simp add: get_def path_def)

lemma get_cases: "get d w s = [] \<or> path d w s = Inr (get d w s)"
  by (simp add: get_def split: sum.splits)

text \<open>Everything lies below the root.\<close>

lemma Clean_rooted: "p \<noteq> [] \<Longrightarrow> hd p = CHR ''/'' \<Longrightarrow> \<exists>x. Clean p = CHR ''/'' # x"
  by (simp add: Clean_def Let_def)

lemma filepath_Abs_rooted: "\<exists>x. filepath_Abs w p = CHR ''/'' # x"
  by (simp add: filepath_Abs_def Clean_rooted)

lemma under_root: "filepath_Abs w dir = ''/'' \<Longrightarrow> under w dir q"
  using filepath_Abs_rooted [of w q] by (auto simp: under_def Let_def)


text \<open>What \<open>Cleanup\<close> removes and what it leaves.\<close>

lemma Cleanup_removes:
  assumes "s \<in> set cleanup_names" and "path d w s = Inr p" and "p \<noteq> []"
    and "reaches w p q" and "\<not> pinned w q"
  shows "q \<notin> dirs (snd (Cleanup d w)) \<and> files (snd (Cleanup d w)) q = None"
proof -
  from assms(2) have "get d w s = p" by (rule get_path)
  with assms(1) have "p \<in> set (map (get d w) cleanup_names)" by force
  from Cleanup_loop_removes [OF this assms(3,4,5)] show ?thesis by (simp add: Cleanup_def)
qed

lemma Cleanup_keeps:
  assumes "pinned w q
      \<or> (\<forall>s \<in> set cleanup_names. \<forall>p. path d w s = Inr p \<and> p \<noteq> [] \<longrightarrow> \<not> reaches w p q)"
  shows "(q \<in> dirs (snd (Cleanup d w)) \<longleftrightarrow> q \<in> dirs w) \<and> files (snd (Cleanup d w)) q = files w q"
proof -
  have "pinned w q \<or> (\<forall>p \<in> set (map (get d w) cleanup_names). p \<noteq> [] \<longrightarrow> \<not> reaches w p q)"
  proof (cases "pinned w q")
    case True
    then show ?thesis by simp
  next
    case False
    with assms have b: "\<forall>s \<in> set cleanup_names. \<forall>p. path d w s = Inr p \<and> p \<noteq> [] \<longrightarrow> \<not> reaches w p q"
      by simp
    have "\<forall>p \<in> set (map (get d w) cleanup_names). p \<noteq> [] \<longrightarrow> \<not> reaches w p q"
    proof (intro ballI impI)
      fix p assume "p \<in> set (map (get d w) cleanup_names)" and ne: "p \<noteq> []"
      then obtain s where s: "s \<in> set cleanup_names" and p: "p = get d w s" by auto
      from get_cases [of d w s] ne p have "path d w s = Inr p" by simp
      with b s ne show "\<not> reaches w p q" by blast
    qed
    then show ?thesis by simp
  qed
  from Cleanup_loop_keeps [OF this] show ?thesis by (simp add: Cleanup_def)
qed

text \<open>
  C2, as the specification has it, fails on the code.  On \<open>host_cpu_busy\<close> the cpu directory
  of the container cannot be removed; \<open>Cleanup\<close> of the handle that \<open>Apply\<close> returned on
  \<open>host_ok\<close> returns nil all the same, and the directory is still there.  (The removal of
  the other subsystems' directories has gone on: the freezer one, last in the list, is
  gone.)
\<close>

theorem Cleanup_failure_returns_nil:
  "fst (Apply joining spec_c1 4242 host_ok) = Inr handle_c1
   \<and> path handle_c1 host_cpu_busy ''cpu'' = Inr ''/cgroup/cpu/c1''
   \<and> fst (RemoveAll host_cpu_busy ''/cgroup/cpu/c1'') = Some (PathError ''remove'' ''/cgroup/cpu/c1'' EBUSY)
   \<and> fst (Cleanup handle_c1 host_cpu_busy) = None
   \<and> ''/cgroup/cpu/c1'' \<in> dirs (snd (Cleanup handle_c1 host_cpu_busy))
   \<and> ''/cgroup/freezer/c1'' \<in> dirs host_cpu_busy
   \<and> ''/cgroup/freezer/c1'' \<notin> dirs (snd (Cleanup handle_c1 host_cpu_busy))"
proof -
  have a: "path handle_c1 host_cpu_busy ''cpu'' = Inr ''/cgroup/cpu/c1''
      \<and> fst (RemoveAll host_cpu_busy ''/cgroup/cpu/c1'') = Some (PathError ''remove'' ''/cgroup/cpu/c1'' EBUSY)
      \<and> pinned host_cpu_busy ''/cgroup/cpu/c1''
      \<and> ''/cgroup/cpu/c1'' \<in> dirs host_cpu_busy"
    by (simp add: ex_eval path_eval fs_eval cg_eval)
  have b: "''freezer'' \<in> set cleanup_names
      \<and> path handle_c1 host_cpu_busy ''freezer'' = Inr ''/cgroup/freezer/c1''
      \<and> reaches host_cpu_busy ''/cgroup/freezer/c1'' ''/cgroup/freezer/c1''
      \<and> \<not> pinned host_cpu_busy ''/cgroup/freezer/c1''
      \<and> ''/cgroup/freezer/c1'' \<in> dirs host_cpu_busy"
    by (simp add: ex_eval path_eval fs_eval cg_eval)
  from a Cleanup_keeps [of host_cpu_busy "''/cgroup/cpu/c1''" handle_c1]
  have 1: "''/cgroup/cpu/c1'' \<in> dirs (snd (Cleanup handle_c1 host_cpu_busy))" by simp
  from b Cleanup_removes [of "''freezer''" handle_c1 host_cpu_busy "''/cgroup/freezer/c1''"
      "''/cgroup/freezer/c1''"]
  have 2: "''/cgroup/freezer/c1'' \<notin> dirs (snd (Cleanup handle_c1 host_cpu_busy))" by simp
  have 3: "fst (Cleanup handle_c1 host_cpu_busy) = None" by (simp add: Cleanup_def)
  from a b 1 2 3 Apply_host_ok show ?thesis by simp
qed

text \<open>
  C2, amended.  \<open>Cleanup\<close> always returns nil.  It calls \<^verbatim>\<open>os.RemoveAll\<close> on the directory
  of each of the eight subsystem names whose path resolves, whatever the removals before
  it have returned, and drops every error.  So whatever one of these removals reaches
  (what lies at or below a resolved directory, a top directory that has to stay, such as
  the root, apart) is gone afterwards, a directory that was missing already included,
  unless the kernel refuses to remove it or something that exists at or below it; what is
  pinned in this way, and what none of the removals reaches, is left as it was; nothing
  is created; and nothing tells the caller which removals failed.  In particular, for a
  handle whose directories resolve to the root, everything that can be removed on the
  host is removed.
\<close>

theorem Cleanup_always_nil_best_effort:
  "fst (Cleanup d w) = None
   \<and> (\<forall>s \<in> set cleanup_names. \<forall>p q.
        path d w s = Inr p \<and> p \<noteq> [] \<and> reaches w p q \<and> \<not> pinned w q \<longrightarrow>
          q \<notin> dirs (snd (Cleanup d w)) \<and> files (snd (Cleanup d w)) q = None)
   \<and> (\<forall>q. pinned w q
          \<or> (\<forall>s \<in> set cleanup_names. \<forall>p. path d w s = Inr p \<and> p \<noteq> [] \<longrightarrow> \<not> reaches w p q) \<longrightarrow>
        (q \<in> dirs (snd (Cleanup d w)) \<longleftrightarrow> q \<in> dirs w) \<and> files (snd (Cleanup d w)) q = files w q)
   \<and> dirs (snd (Cleanup d w)) \<subseteq> dirs w"
proof (intro conjI ballI allI impI)
  show "fst (Cleanup d w) = None" by (simp add: Cleanup_def)
next
  fix s p q
  assume "s \<in> set cleanup_names"
    and "path d w s = Inr p \<and> p \<noteq> [] \<and> reaches w p q \<and> \<not> pinned w q"
  with Cleanup_removes [of s d w p q]
  show "q \<notin> dirs (snd (Cleanup d w))" and "files (snd (Cleanup d w)) q = None" by simp_all
next
  fix q
  assume "pinned w q
      \<or> (\<forall>s \<in> set cleanup_names. \<forall>p. path d w s = Inr p \<and> p \<noteq> [] \<longrightarrow> \<not> reaches w p q)"
  from Cleanup_keeps [OF this]
  show "q \<in> dirs (snd (Cleanup d w)) \<longleftrightarrow> q \<in> dirs w" and "files (snd (Cleanup d w)) q = files w q"
    by simp_all
next
  show "dirs (snd (Cleanup d w)) \<subseteq> dirs w"
    using Cleanup_loop_shrinks [of _ w "map (get d w) cleanup_names"] by (auto simp: Cleanup_def)
qed

theorem Cleanup_always_nil_best_effort_witness:
  "''memory'' \<in> set cleanup_names
   \<and> path handle_c1 host_cpu_busy ''memory'' = Inr ''/cgroup/memory/c1''
   \<and> reaches host_cpu_busy ''/cgroup/memory/c1'' ''/cgroup/memory/c1''
   \<and> \<not> pinned host_cpu_busy ''/cgroup/memory/c1''
   \<and> ''/cgroup/memory/c1'' \<in> dirs host_cpu_busy
   \<and> ''/cgroup/memory/c1'' \<notin> dirs (snd (Cleanup handle_c1 host_cpu_busy))
   \<and> fst (Cleanup handle_c1 host_cpu_busy) = None
   \<and> ''/cgroup/memory'' \<in> dirs (snd (Cleanup handle_c1 host_cpu_busy))
   \<and> pinned host_cpu_busy ''/cgroup/cpu/c1''
   \<and> ''/cgroup/cpu/c1'' \<in> dirs (snd (Cleanup handle_c1 host_cpu_busy))
   \<and> fst (Apply joining (spec_c1\<lparr>Name := ''../..''\<rparr>) 4242 host_etc) = Inr handle_escape
   \<and> path handle_escape host_etc ''memory'' = Inr ''/''
   \<and> reaches host_etc ''/'' ''/etc/passwd''
   \<and> \<not> pinned host_etc ''/etc/passwd''
   \<and> files host_etc ''/etc/passwd'' = Some ''root''
   \<and> files (snd (Cleanup handle_escape host_etc)) ''/etc/passwd'' = None
   \<and> ''/'' \<in> dirs host_etc
   \<and> ''/'' \<in> dirs (snd (Cleanup handle_escape host_etc))"
proof -
  have a: "''memory'' \<in> set cleanup_names
   \<and> path handle_c1 host_cpu_busy ''memory'' = Inr ''/cgroup/memory/c1''
   \<and> ''/cgroup/memory/c1'' \<noteq> []
   \<and> reaches host_cpu_busy ''/cgroup/memory/c1'' ''/cgroup/memory/c1''
   \<and> \<not> pinned host_cpu_busy ''/cgroup/memory/c1''
   \<and> ''/cgroup/memory/c1'' \<in> dirs host_cpu_busy \<and> ''/cgroup/memory'' \<in> dirs host_cpu_busy
   \<and> ''/cgroup/cpu/c1'' \<in> dirs host_cpu_busy
   \<and> pinned host_cpu_busy ''/cgroup/cpu/c1''"
    by (simp add: ex_eval path_eval fs_eval cg_eval)
  have b: "\<forall>s \<in> set cleanup_names. \<forall>p. path handle_c1 host_cpu_busy s = Inr p \<and> p \<noteq> []
      \<longrightarrow> \<not> reaches host_cpu_busy p ''/cgroup/memory''"
    by (simp add: ex_eval path_eval fs_eval cg_eval)
  have c: "path handle_escape host_etc ''memory'' = Inr ''/'' \<and> ''/'' \<noteq> []
   \<and> reaches host_etc ''/'' ''/etc/passwd''
   \<and> \<not> pinned host_etc ''/etc/passwd''
   \<and> files host_etc ''/etc/passwd'' = Some ''root''"
    by (simp add: ex_eval path_eval fs_eval cg_eval)
  note th = Cleanup_always_nil_best_effort [of handle_c1 host_cpu_busy]
  note th' = Cleanup_always_nil_best_effort [of handle_escape host_etc]
  from th a have 1: "''/cgroup/memory/c1'' \<notin> dirs (snd (Cleanup handle_c1 host_cpu_busy))" by blast
  from th b a have 2: "''/cgroup/memory'' \<in> dirs (snd (Cleanup handle_c1 host_cpu_busy))" by blast
  from th have 3: "fst (Cleanup handle_c1 host_cpu_busy) = None" by blast
  from th a have 4: "''/cgroup/cpu/c1'' \<in> dirs (snd (Cleanup handle_c1 host_cpu_busy))" by blast
  from th' a c have 5: "files (snd (Cleanup handle_escape host_etc)) ''/etc/passwd'' = None" by blast
  have r: "''/'' \<in> dirs host_etc
      \<and> (\<forall>s \<in> set cleanup_names. \<forall>p. path handle_escape host_etc s = Inr p \<and> p \<noteq> []
            \<longrightarrow> \<not> reaches host_etc p ''/'')"
    by (simp add: ex_eval path_eval fs_eval cg_eval)
  with th' have 6: "''/'' \<in> dirs (snd (Cleanup handle_escape host_etc))" by blast
  from a c r 1 2 3 4 5 6 Apply_host_etc show ?thesis by blast
qed

subsection \<open>Cleanup and the subsystems that were joined\<close>

lemma Cleanup_loop_skips_empty: "Cleanup_loop (xs @ [] # ys) w = Cleanup_loop (xs @ ys) w"
  by (induction xs arbitrary: w) simp_all

text \<open>
  C5, as the specification has it, fails on the code.  \<open>Apply\<close> on \<open>host_no_perf\<close> succeeds
  and makes no directory for perf-event.  The handle has no list of joined subsystems;
  \<open>Cleanup\<close> looks every one of its eight names up again.  On \<open>host_perf_later\<close>, where the
  perf-event hierarchy has been mounted since and holds a directory of that name,
  \<open>Cleanup\<close> of the handle removes the directory, though the handle never joined
  perf-event.
\<close>

theorem Cleanup_removes_perf_event_never_joined:
  "fst (Apply joining spec_c1 4242 host_no_perf) = Inr handle_c1
   \<and> ''/cgroup/perf_event/c1'' \<notin> dirs (snd (Apply joining spec_c1 4242 host_no_perf))
   \<and> ''/cgroup/perf_event/c1'' \<in> dirs host_perf_later
   \<and> ''/cgroup/perf_event/c1'' \<notin> dirs (snd (Cleanup handle_c1 host_perf_later))"
proof -
  have 1: "''/cgroup/perf_event/c1'' \<notin> dirs (snd (Apply joining spec_c1 4242 host_no_perf))"
    by (simp add: ex_eval path_eval fs_eval cg_eval)
  have a: "''perf_event'' \<in> set cleanup_names
      \<and> path handle_c1 host_perf_later ''perf_event'' = Inr ''/cgroup/perf_event/c1''
      \<and> reaches host_perf_later ''/cgroup/perf_event/c1'' ''/cgroup/perf_event/c1''
      \<and> \<not> pinned host_perf_later ''/cgroup/perf_event/c1''
      \<and> ''/cgroup/perf_event/c1'' \<in> dirs host_perf_later"
    by (simp add: ex_eval path_eval fs_eval cg_eval)
  with Cleanup_removes [of "''perf_event''" handle_c1 host_perf_later "''/cgroup/perf_event/c1''"
      "''/cgroup/perf_event/c1''"]
  have 2: "''/cgroup/perf_event/c1'' \<notin> dirs (snd (Cleanup handle_c1 host_perf_later))" by simp
  from 1 2 a Apply_host_no_perf show ?thesis by simp
qed

text \<open>
  C5, amended.  If the perf-event hierarchy is not mounted and the seven other subsystems
  succeed, \<open>Apply\<close> succeeds.  The handle it returns is the root, the hierarchy path, the
  resource specification and the pid, and holds no list of joined subsystems.  \<open>Cleanup\<close>
  resolves the path of each of its eight fixed names again and skips a name whose path
  does not resolve: as long as perf-event is not mounted when \<open>Cleanup\<close> runs, \<open>Cleanup\<close>
  does what it would do with the seven other names alone, and a directory that the
  removal of none of their paths reaches stays.
\<close>

theorem Cleanup_skips_unmounted_perf_event:
  "(FindCgroupMountpoint w ''cpu'' = Inr mp \<and> Stat_ok w (filepath_Dir mp)
      \<and> d = \<lparr>root = filepath_Dir mp,
               cgroup = (if Parent spec \<noteq> [] then filepath_Join [Parent spec, Name spec] else Name spec),
               c = spec, pid = p\<rparr>
      \<and> Apply_loop others before_perf_event d w = (None, w1)
      \<and> GetInitCgroupDir w1 ''perf_event'' = Inl ErrNotFound
      \<and> Set_of others freezerGroup d w1 = (None, w2) \<longrightarrow>
        Apply others spec p w = (Inr d, w2))
   \<and> d = \<lparr>root = root d, cgroup = cgroup d, c = c d, pid = pid d\<rparr>
   \<and> (GetInitCgroupDir h ''perf_event'' = Inl err \<longrightarrow>
        Cleanup d h = (None, Cleanup_loop (map (get d h) cleanup_names_but_perf_event) h))
   \<and> (GetInitCgroupDir h ''perf_event'' = Inl err
        \<and> (\<forall>s \<in> set cleanup_names_but_perf_event. \<forall>q.
              path d h s = Inr q \<and> q \<noteq> [] \<longrightarrow> \<not> reaches h q x) \<longrightarrow>
        (x \<in> dirs (snd (Cleanup d h)) \<longleftrightarrow> x \<in> dirs h))"
proof -
  have skip: "Cleanup d h = (None, Cleanup_loop (map (get d h) cleanup_names_but_perf_event) h)"
    if "GetInitCgroupDir h ''perf_event'' = Inl err"
  proof -
    from that have "get d h ''perf_event'' = []" by (rule get_unresolved)
    moreover have "map (get d h) cleanup_names =
        map (get d h) [''memory'', ''devices'', ''cpu'', ''cpuset'', ''cpuacct'', ''blkio'']
          @ get d h ''perf_event'' # map (get d h) [''freezer'']"
      by (simp add: cleanup_names_def)
    ultimately have "Cleanup_loop (map (get d h) cleanup_names) h =
        Cleanup_loop (map (get d h) [''memory'', ''devices'', ''cpu'', ''cpuset'', ''cpuacct'', ''blkio'']
          @ map (get d h) [''freezer'']) h"
      by (simp only: Cleanup_loop_skips_empty)
    then show ?thesis by (simp add: Cleanup_def cleanup_names_but_perf_event_def)
  qed
  show ?thesis
  proof (intro conjI impI)
    assume a: "FindCgroupMountpoint w ''cpu'' = Inr mp \<and> Stat_ok w (filepath_Dir mp)
      \<and> d = \<lparr>root = filepath_Dir mp,
               cgroup = (if Parent spec \<noteq> [] then filepath_Join [Parent spec, Name spec] else Name spec),
               c = spec, pid = p\<rparr>
      \<and> Apply_loop others before_perf_event d w = (None, w1)
      \<and> GetInitCgroupDir w1 ''perf_event'' = Inl ErrNotFound
      \<and> Set_of others freezerGroup d w1 = (None, w2)"
    then have "perfEventGroup_Set d w1 = (None, w1)"
      by (simp add: perfEventGroup_Set_def join_def path_def)
    with a have "Apply_loop others subsystems d w = (None, w2)"
      by (elim conjE) (simp add: subsystems_split Apply_loop_append)
    moreover from a have "Apply others spec p w =
       (case Apply_loop others subsystems d w of
          (Some err, w1) \<Rightarrow> (Inl err, w1)
        | (None, w1) \<Rightarrow> (Inr d, w1))"
      by (elim conjE) (rule Apply_resolved, assumption+)
    ultimately show "Apply others spec p w = (Inr d, w2)" by simp
  next
    show "d = \<lparr>root = root d, cgroup = cgroup d, c = c d, pid = pid d\<rparr>" by simp
  next
    assume "GetInitCgroupDir h ''perf_event'' = Inl err"
    then show "Cleanup d h = (None, Cleanup_loop (map (get d h) cleanup_names_but_perf_event) h)"
      by (rule skip)
  next
    assume a: "GetInitCgroupDir h ''perf_event'' = Inl err
        \<and> (\<forall>s \<in> set cleanup_names_but_perf_event. \<forall>q.
              path d h s = Inr q \<and> q \<noteq> [] \<longrightarrow> \<not> reaches h q x)"
    have "\<forall>q \<in> set (map (get d h) cleanup_names_but_perf_event). q \<noteq> [] \<longrightarrow> \<not> reaches h q x"
    proof (intro ballI impI)
      fix q assume "q \<in> set (map (get d h) cleanup_names_but_perf_event)" and ne: "q \<noteq> []"
      then obtain s where s: "s \<in> set cleanup_names_but_perf_event" and q: "q = get d h s" by auto
      from get_cases [of d h s] ne q have "path d h s = Inr q" by simp
      with a s ne show "\<not> reaches h q x" by blast
    qed
    then have "pinned h x
        \<or> (\<forall>q \<in> set (map (get d h) cleanup_names_but_perf_event). q \<noteq> [] \<longrightarrow> \<not> reaches h q x)"
      by simp
    moreover from a have "Cleanup d h = (None, Cleanup_loop (map (get d h) cleanup_names_but_perf_event) h)"
      by (intro skip) simp
    ultimately show "x \<in> dirs (snd (Cleanup d h)) \<longleftrightarrow> x \<in> dirs h"
      using Cleanup_loop_keeps [of h x "map (get d h) cleanup_names_but_perf_event"] by simp
  qed
qed

theorem Cleanup_skips_unmounted_perf_event_witness:
  "GetInitCgroupDir (snd (Apply_loop joining before_perf_event handle_c1 host_no_perf)) ''perf_event''
      = Inl ErrNotFound
   \<and> fst (Apply joining spec_c1 4242 host_no_perf) = Inr handle_c1
   \<and> GetInitCgroupDir host_no_perf_later ''perf_event'' = Inl ErrNotFound
   \<and> Cleanup handle_c1 host_no_perf_later
       = (None, Cleanup_loop (map (get handle_c1 host_no_perf_later) cleanup_names_but_perf_event)
                  host_no_perf_later)
   \<and> ''/cgroup/perf_event/c1'' \<in> dirs host_no_perf_later
   \<and> ''/cgroup/perf_event/c1'' \<in> dirs (snd (Cleanup handle_c1 host_no_perf_later))"
proof -
  let ?w1 = "snd (Apply_loop joining before_perf_event handle_c1 host_no_perf)"
  have nf: "GetInitCgroupDir ?w1 ''perf_event'' = Inl ErrNotFound"
    by (simp add: GetInitCgroupDir_def Apply_loop_joining_initdirs host_no_perf_def)
  from Apply_loop_host_no_perf obtain w' where
    pre: "Apply_loop joining before_perf_event handle_c1 host_no_perf = (None, ?w1)"
    and post: "Apply_loop joining [perfEventGroup, freezerGroup] handle_c1 ?w1 = (None, w')" by auto
  from nf have "perfEventGroup_Set handle_c1 ?w1 = (None, ?w1)"
    by (simp add: perfEventGroup_Set_def join_def path_def)
  with post have fr: "Set_of joining freezerGroup handle_c1 ?w1 = (None, w')"
    by (simp split: prod.splits option.splits)
  have later: "GetInitCgroupDir host_no_perf_later ''perf_event'' = Inl ErrNotFound
      \<and> ''/cgroup/perf_event/c1'' \<in> dirs host_no_perf_later"
    by (simp add: ex_eval fs_eval cleanup_names_def)
  have away: "\<forall>s \<in> set cleanup_names_but_perf_event. \<forall>q.
      path handle_c1 host_no_perf_later s = Inr q \<and> q \<noteq> []
        \<longrightarrow> \<not> reaches host_no_perf_later q ''/cgroup/perf_event/c1''"
    by (simp add: ex_eval path_eval fs_eval cg_eval)
  note a = Cleanup_skips_unmounted_perf_event [where w = host_no_perf and mp = "''/cgroup/cpu''"
      and d = handle_c1 and spec = spec_c1 and p = 4242 and others = joining and ?w1.0 = ?w1
      and ?w2.0 = w' and h = host_no_perf_later and err = ErrNotFound and x = "''/cgroup/perf_event/c1''"]
  from a later have 1: "Cleanup handle_c1 host_no_perf_later
       = (None, Cleanup_loop (map (get handle_c1 host_no_perf_later) cleanup_names_but_perf_event)
                  host_no_perf_later)" by blast
  from a later away have 2: "''/cgroup/perf_event/c1'' \<in> dirs (snd (Cleanup handle_c1 host_no_perf_later))"
    by blast
  from nf Apply_host_no_perf later 1 2 show ?thesis by blast
qed

section \<open>Joining a hierarchy\<close>

lemma WriteFile_None:
  "WriteFile w f x = (None, w') \<Longrightarrow> w' = w\<lparr>files := (files w)(f \<mapsto> x)\<rparr>"
  by (auto simp: WriteFile_def split: option.splits if_splits)

lemma MkdirAll_existing: "p \<in> dirs w \<Longrightarrow> MkdirAll w p = (None, w)"
  by (simp add: MkdirAll_def)

lemma MkdirAll_None_tree:
  "fst (MkdirAll w p) = None \<Longrightarrow> p \<notin> dirs w \<Longrightarrow>
     dirs (snd (MkdirAll w p)) = dirs w \<union> set (tree_of p) \<and> p \<noteq> []"
  by (auto simp: MkdirAll_def split: option.splits if_splits)

text \<open>With the path resolved, \<open>join\<close> is the mkdir, then the write.\<close>

lemma join_resolved:
  assumes "path d w s = Inr p"
  shows "join d s w =
     (case fst (MkdirAll w p) of
        None \<Rightarrow>
          (case writeFile p ''cgroup.procs'' (Itoa (pid d)) (snd (MkdirAll w p)) of
             (Some err', w2) \<Rightarrow> (Inl err', w2)
           | (None, w2) \<Rightarrow> (Inr p, w2))
      | Some err \<Rightarrow>
          if \<not> IsExist err then (Inl err, snd (MkdirAll w p))
          else (case writeFile p ''cgroup.procs'' (Itoa (pid d)) (snd (MkdirAll w p)) of
                  (Some err', w2) \<Rightarrow> (Inl err', w2)
                | (None, w2) \<Rightarrow> (Inr p, w2)))"
proof (cases "MkdirAll w p")
  case (Pair r w1)
  with assms show ?thesis by (cases r) (simp_all add: join_def)
qed

lemma join_Inr:
  assumes "join d s w = (Inr q, w')"
  shows "path d w s = Inr q \<and> dirs w' = dirs (snd (MkdirAll w q))
     \<and> files w' = (files w)(filepath_Join [q, ''cgroup.procs''] \<mapsto> Itoa (pid d))"
proof -
  from assms obtain p where p: "path d w s = Inr p"
    by (cases "path d w s") (simp_all add: join_def)
  let ?w1 = "snd (MkdirAll w p)"
  from assms join_resolved [OF p]
  have "q = p \<and> writeFile p ''cgroup.procs'' (Itoa (pid d)) ?w1 = (None, w')"
    by (auto split: option.splits prod.splits if_splits)
  then have q: "q = p" and "WriteFile ?w1 (filepath_Join [p, ''cgroup.procs'']) (Itoa (pid d)) = (None, w')"
    by (simp_all add: writeFile_def)
  from WriteFile_None [OF this(2)]
  have "w' = ?w1\<lparr>files := (files ?w1)(filepath_Join [p, ''cgroup.procs''] \<mapsto> Itoa (pid d))\<rparr>" .
  then have "dirs w' = dirs ?w1 \<and> files w' = (files ?w1)(filepath_Join [p, ''cgroup.procs''] \<mapsto> Itoa (pid d))"
    by simp
  with p q MkdirAll_frame [of w p] show ?thesis by simp
qed

text \<open>
  C9.  Once the path of the subsystem is resolved, \<open>join\<close> makes the directory with its
  parents when it is not there (a directory that exists already is no error and changes
  nothing), goes on after an error of \<^verbatim>\<open>os.MkdirAll\<close> that says the path exists, and then
  writes the pid, in decimal, as the whole content of \<^verbatim>\<open>cgroup.procs\<close> in that directory.
  It succeeds exactly when the directory creation reports no error other than "exists" and
  the write succeeds; the error it returns otherwise is the one of the creation or the one
  of the write.
\<close>

theorem join_makes_directory_and_writes_pid:
  "path d w s = Inr p \<longrightarrow>
     (p \<in> dirs w \<longrightarrow> MkdirAll w p = (None, w))
   \<and> (fst (MkdirAll w p) = None \<and> p \<notin> dirs w \<longrightarrow> set (tree_of p) \<subseteq> dirs (snd (MkdirAll w p)))
   \<and> (fst (MkdirAll w p) = None \<and> p \<noteq> ''/'' \<longrightarrow> p \<in> dirs (snd (MkdirAll w p)))
   \<and> ((\<exists>w'. join d s w = (Inr p, w')) \<longleftrightarrow>
        (fst (MkdirAll w p) = None \<or> (\<exists>e. fst (MkdirAll w p) = Some e \<and> IsExist e))
        \<and> fst (writeFile p ''cgroup.procs'' (Itoa (pid d)) (snd (MkdirAll w p))) = None)
   \<and> (join d s w = (Inr q, w') \<longrightarrow>
        q = p \<and> dirs w' = dirs (snd (MkdirAll w p))
        \<and> files w' = (files w)(filepath_Join [p, ''cgroup.procs''] \<mapsto> Itoa (pid d)))
   \<and> (join d s w = (Inl err, w') \<longrightarrow>
        (fst (MkdirAll w p) = Some err \<and> \<not> IsExist err)
        \<or> fst (writeFile p ''cgroup.procs'' (Itoa (pid d)) (snd (MkdirAll w p))) = Some err)"
proof (intro impI conjI)
  assume "p \<in> dirs w"
  then show "MkdirAll w p = (None, w)" by (rule MkdirAll_existing)
next
  assume "fst (MkdirAll w p) = None \<and> p \<notin> dirs w"
  with MkdirAll_None_tree [of w p] show "set (tree_of p) \<subseteq> dirs (snd (MkdirAll w p))" by auto
next
  assume p: "path d w s = Inr p" and a: "fst (MkdirAll w p) = None \<and> p \<noteq> ''/''"
  show "p \<in> dirs (snd (MkdirAll w p))"
  proof (cases "p \<in> dirs w")
    case True
    then show ?thesis by (simp add: MkdirAll_existing)
  next
    case False
    with a MkdirAll_None_tree [of w p]
    have t: "dirs (snd (MkdirAll w p)) = dirs w \<union> set (tree_of p)" and ne: "p \<noteq> []" by simp_all
    from p obtain ip where "p = filepath_Join [root d, s, ip, cgroup d]"
      by (auto simp: path_def split: sum.splits)
    with ne a filepath_Join_in_tree [of "[root d, s, ip, cgroup d]"] have "p \<in> set (tree_of p)" by simp
    with t show ?thesis by simp
  qed
next
  assume p: "path d w s = Inr p"
  show "(\<exists>w'. join d s w = (Inr p, w')) \<longleftrightarrow>
        (fst (MkdirAll w p) = None \<or> (\<exists>e. fst (MkdirAll w p) = Some e \<and> IsExist e))
        \<and> fst (writeFile p ''cgroup.procs'' (Itoa (pid d)) (snd (MkdirAll w p))) = None"
    by (auto simp: join_resolved [OF p] split: option.splits prod.splits)
next
  assume p: "path d w s = Inr p" and j: "join d s w = (Inr q, w')"
  from join_Inr [OF j] p
  show "q = p" and "dirs w' = dirs (snd (MkdirAll w p))"
    and "files w' = (files w)(filepath_Join [p, ''cgroup.procs''] \<mapsto> Itoa (pid d))" by simp_all
next
  assume p: "path d w s = Inr p" and j: "join d s w = (Inl err, w')"
  then show "(fst (MkdirAll w p) = Some err \<and> \<not> IsExist err)
        \<or> fst (writeFile p ''cgroup.procs'' (Itoa (pid d)) (snd (MkdirAll w p))) = Some err"
    by (auto simp: join_resolved [OF p] split: option.splits prod.splits if_splits)
qed


lemma join_cpu_host_ok:
  "path handle_c1 host_ok ''cpu'' = Inr ''/cgroup/cpu/c1''
   \<and> ''/cgroup/cpu/c1'' \<notin> dirs host_ok
   \<and> fst (MkdirAll host_ok ''/cgroup/cpu/c1'') = None
   \<and> fst (join handle_c1 ''cpu'' host_ok) = Inr ''/cgroup/cpu/c1''
   \<and> filepath_Join [''/cgroup/cpu/c1'', ''cgroup.procs''] = ''/cgroup/cpu/c1/cgroup.procs''
   \<and> filepath_Join [''/cgroup/cpu/c1'', ''cpu.shares''] = ''/cgroup/cpu/c1/cpu.shares''
   \<and> Itoa (pid handle_c1) = ''4242''
   \<and> FormatInt (CpuShares (c handle_c1)) = ''512''"
  by (simp add: ex_eval path_eval fs_eval cg_eval)

lemma join_cpu_host_cpu_busy:
  "path handle_c1 host_cpu_busy ''cpu'' = Inr ''/cgroup/cpu/c1''
   \<and> ''/cgroup/cpu/c1'' \<in> dirs host_cpu_busy
   \<and> fst (join handle_c1 ''cpu'' host_cpu_busy) = Inr ''/cgroup/cpu/c1''"
  by (simp add: ex_eval path_eval fs_eval cg_eval)

lemma join_perf_event_host_perf_denied:
  "path handle_c1 host_perf_denied ''perf_event'' = Inr ''/cgroup/perf_event/c1''
   \<and> fst (join handle_c1 ''perf_event'' host_perf_denied)
       = Inl (PathError ''mkdir'' ''/cgroup/perf_event/c1'' EACCES)
   \<and> fst (MkdirAll host_perf_denied ''/cgroup/perf_event/c1'')
       = Some (PathError ''mkdir'' ''/cgroup/perf_event/c1'' EACCES)"
  by (simp add: ex_eval path_eval fs_eval cg_eval)

theorem join_makes_directory_and_writes_pid_witness:
  "path handle_c1 host_ok ''cpu'' = Inr ''/cgroup/cpu/c1''
   \<and> ''/cgroup/cpu/c1'' \<notin> dirs host_ok
   \<and> set (tree_of ''/cgroup/cpu/c1'') \<subseteq> dirs (snd (MkdirAll host_ok ''/cgroup/cpu/c1''))
   \<and> ''/cgroup/cpu/c1'' \<in> dirs (snd (MkdirAll host_ok ''/cgroup/cpu/c1''))
   \<and> fst (join handle_c1 ''cpu'' host_ok) = Inr ''/cgroup/cpu/c1''
   \<and> ''/cgroup/cpu/c1'' \<in> dirs (snd (join handle_c1 ''cpu'' host_ok))
   \<and> files (snd (join handle_c1 ''cpu'' host_ok)) ''/cgroup/cpu/c1/cgroup.procs'' = Some ''4242''
   \<and> ''/cgroup/cpu/c1'' \<in> dirs host_cpu_busy
   \<and> MkdirAll host_cpu_busy ''/cgroup/cpu/c1'' = (None, host_cpu_busy)
   \<and> fst (join handle_c1 ''cpu'' host_cpu_busy) = Inr ''/cgroup/cpu/c1''
   \<and> fst (join handle_c1 ''perf_event'' host_perf_denied)
       = Inl (PathError ''mkdir'' ''/cgroup/perf_event/c1'' EACCES)
   \<and> fst (MkdirAll host_perf_denied ''/cgroup/perf_event/c1'')
       = Some (PathError ''mkdir'' ''/cgroup/perf_event/c1'' EACCES)
   \<and> \<not> IsExist (PathError ''mkdir'' ''/cgroup/perf_event/c1'' EACCES)"
proof -
  let ?p = "''/cgroup/cpu/c1''"
  let ?j = "join handle_c1 ''cpu'' host_ok"
  note a = join_makes_directory_and_writes_pid [where d = handle_c1 and w = host_ok and s = "''cpu''"
      and p = ?p and q = ?p and w' = "snd ?j"]
  note b = join_makes_directory_and_writes_pid [where d = handle_c1 and w = host_cpu_busy
      and s = "''cpu''" and p = ?p]
  have j: "?j = (Inr ?p, snd ?j)" using join_cpu_host_ok by (simp add: prod_eq_iff)
  have ne: "?p \<noteq> ''/''" by simp
  from a join_cpu_host_ok have 1: "set (tree_of ?p) \<subseteq> dirs (snd (MkdirAll host_ok ?p))" by blast
  from a join_cpu_host_ok ne have 2: "?p \<in> dirs (snd (MkdirAll host_ok ?p))" by blast
  from a join_cpu_host_ok j have 3: "dirs (snd ?j) = dirs (snd (MkdirAll host_ok ?p))
      \<and> files (snd ?j) = (files host_ok)(filepath_Join [?p, ''cgroup.procs''] \<mapsto> Itoa (pid handle_c1))"
    by blast
  with 2 have 4: "?p \<in> dirs (snd ?j)" by simp
  from 3 join_cpu_host_ok have 5: "files (snd ?j) ''/cgroup/cpu/c1/cgroup.procs'' = Some ''4242''"
    by simp
  from b join_cpu_host_cpu_busy have 6: "MkdirAll host_cpu_busy ?p = (None, host_cpu_busy)" by blast
  have 7: "\<not> IsExist (PathError ''mkdir'' ''/cgroup/perf_event/c1'' EACCES)" by simp
  from join_cpu_host_ok join_cpu_host_cpu_busy join_perf_event_host_perf_denied 1 2 4 5 6 7
  show ?thesis by blast
qed

section \<open>The cpu subsystem\<close>







section \<open>The layout of the directories\<close>

text \<open>
  C8.  The handle of an \<open>Apply\<close> holds one root (the parent directory of the cpu
  mountpoint) and one hierarchy path (\<^verbatim>\<open>filepath.Join(parent, name)\<close> when the parent is
  not empty, the name otherwise), and the directory of every subsystem is
  \<^verbatim>\<open>filepath.Join(root, subsystem, initPath, hierarchy path)\<close> with these two; it is the
  directory that \<open>join\<close> returns.  For plain path elements the joins are what they read:
  a parent \<open>ps\<^sub>1/\<dots>/ps\<^sub>k\<close> and a name \<open>n\<close> give \<open>ps\<^sub>1/\<dots>/ps\<^sub>k/n\<close>, and a root
  \<open>/rs\<close>, a subsystem \<open>s\<close>, an init path \<open>/ips\<close> (or \<open>/\<close>) and a hierarchy path \<open>cs\<close>
  give \<open>/rs/s/ips/cs\<close>.
\<close>

theorem path_layout:
  "(Apply others spec p w = (Inr d, w') \<longrightarrow>
       (\<exists>mp. FindCgroupMountpoint w ''cpu'' = Inr mp \<and> root d = filepath_Dir mp)
     \<and> cgroup d = (if Parent spec \<noteq> [] then filepath_Join [Parent spec, Name spec] else Name spec))
   \<and> path d h s =
        (case GetInitCgroupDir h s of
           Inl err \<Rightarrow> Inl err
         | Inr initPath \<Rightarrow> Inr (filepath_Join [root d, s, initPath, cgroup d]))
   \<and> (join d s h = (Inr q, h') \<longrightarrow>
        (\<exists>initPath. GetInitCgroupDir h s = Inr initPath
           \<and> q = filepath_Join [root d, s, initPath, cgroup d]))
   \<and> ((\<forall>e \<in> set (ps @ [n]). plain e) \<and> ps \<noteq> [] \<longrightarrow>
        filepath_Join [join_slash ps, n] = join_slash (ps @ [n]))
   \<and> ((\<forall>e \<in> set (rs @ [s] @ ips @ cs). plain e) \<and> cs \<noteq> []
        \<and> root d = CHR ''/'' # join_slash rs
        \<and> GetInitCgroupDir h s = Inr (CHR ''/'' # join_slash ips)
        \<and> cgroup d = join_slash cs \<longrightarrow>
        path d h s = Inr (CHR ''/'' # join_slash (rs @ [s] @ ips @ cs)))"
proof (intro conjI impI)
  assume "Apply others spec p w = (Inr d, w')"
  from Apply_Inr_D [OF this] obtain mp where
    mp: "FindCgroupMountpoint w ''cpu'' = Inr mp"
    and d: "d = \<lparr>root = filepath_Dir mp,
           cgroup = (if Parent spec \<noteq> [] then filepath_Join [Parent spec, Name spec] else Name spec),
           c = spec, pid = p\<rparr>" by blast
  from d have "root d = filepath_Dir mp" by simp
  with mp show "\<exists>mp. FindCgroupMountpoint w ''cpu'' = Inr mp \<and> root d = filepath_Dir mp" by blast
  from d show "cgroup d = (if Parent spec \<noteq> [] then filepath_Join [Parent spec, Name spec] else Name spec)"
    by simp
next
  show "path d h s =
        (case GetInitCgroupDir h s of
           Inl err \<Rightarrow> Inl err
         | Inr initPath \<Rightarrow> Inr (filepath_Join [root d, s, initPath, cgroup d]))"
    by (simp add: path_def)
next
  assume "join d s h = (Inr q, h')"
  from join_Inr [OF this] have "path d h s = Inr q" by simp
  then show "\<exists>initPath. GetInitCgroupDir h s = Inr initPath
           \<and> q = filepath_Join [root d, s, initPath, cgroup d]"
    by (auto simp: path_def split: sum.splits)
next
  assume "(\<forall>e \<in> set (ps @ [n]). plain e) \<and> ps \<noteq> []"
  then show "filepath_Join [join_slash ps, n] = join_slash (ps @ [n])"
    by (simp add: filepath_Join_parent)
next
  assume a: "(\<forall>e \<in> set (rs @ [s] @ ips @ cs). plain e) \<and> cs \<noteq> []
        \<and> root d = CHR ''/'' # join_slash rs
        \<and> GetInitCgroupDir h s = Inr (CHR ''/'' # join_slash ips)
        \<and> cgroup d = join_slash cs"
  then have "filepath_Join [CHR ''/'' # join_slash rs, s, CHR ''/'' # join_slash ips, join_slash cs]
     = CHR ''/'' # join_slash (rs @ [s] @ ips @ cs)"
    by (elim conjE) (rule filepath_Join_layout, assumption+)
  with a show "path d h s = Inr (CHR ''/'' # join_slash (rs @ [s] @ ips @ cs))"
    by (simp add: path_def)
qed

theorem path_layout_witness:
  "fst (Apply joining spec_c1 4242 host_ok) = Inr handle_c1
   \<and> FindCgroupMountpoint host_ok ''cpu'' = Inr ''/cgroup/cpu''
   \<and> root handle_c1 = filepath_Dir ''/cgroup/cpu''
   \<and> cgroup handle_c1 = Name spec_c1
   \<and> fst (join handle_c1 ''cpu'' host_ok) = Inr ''/cgroup/cpu/c1''
   \<and> plain ''user'' \<and> plain ''docker'' \<and> plain ''c1'' \<and> plain ''cgroup'' \<and> plain ''cpu''
   \<and> filepath_Join [join_slash [''user'', ''docker''], ''c1''] = ''user/docker/c1''
   \<and> root handle_c1 = CHR ''/'' # join_slash [''cgroup'']
   \<and> GetInitCgroupDir host_ok ''cpu'' = Inr (CHR ''/'' # join_slash [])
   \<and> cgroup handle_c1 = join_slash [''c1'']
   \<and> path handle_c1 host_ok ''cpu'' = Inr ''/cgroup/cpu/c1''"
proof -
  note a = path_layout [where others = joining and spec = spec_c1 and p = 4242 and w = host_ok
      and d = handle_c1 and w' = "snd (Apply joining spec_c1 4242 host_ok)" and h = host_ok
      and s = "''cpu''" and q = "''/cgroup/cpu/c1''" and h' = "snd (join handle_c1 ''cpu'' host_ok)"
      and ps = "[''user'', ''docker'']" and n = "''c1''" and rs = "[''cgroup'']" and ips = "[]"
      and cs = "[''c1'']"]
  have pl: "(\<forall>e \<in> set ([''user'', ''docker''] @ [''c1'']). plain e)
      \<and> (\<forall>e \<in> set ([''cgroup''] @ [''cpu''] @ [] @ [''c1'']). plain e)"
    by (simp add: plain_def)
  have h: "root handle_c1 = CHR ''/'' # join_slash [''cgroup'']
      \<and> GetInitCgroupDir host_ok ''cpu'' = Inr (CHR ''/'' # join_slash [])
      \<and> cgroup handle_c1 = join_slash [''c1''] \<and> cgroup handle_c1 = Name spec_c1
      \<and> root handle_c1 = filepath_Dir ''/cgroup/cpu''"
    by (simp add: ex_eval fs_eval path_eval cleanup_names_def)
  from a pl have 1: "filepath_Join [join_slash [''user'', ''docker''], ''c1'']
      = join_slash ([''user'', ''docker''] @ [''c1''])" by blast
  then have 1: "filepath_Join [join_slash [''user'', ''docker''], ''c1''] = ''user/docker/c1''" by simp
  from a pl h have "path handle_c1 host_ok ''cpu''
      = Inr (CHR ''/'' # join_slash ([''cgroup''] @ [''cpu''] @ [] @ [''c1'']))" by blast
  then have 2: "path handle_c1 host_ok ''cpu'' = Inr ''/cgroup/cpu/c1''" by simp
  have pl': "plain ''user'' \<and> plain ''docker'' \<and> plain ''c1'' \<and> plain ''cgroup'' \<and> plain ''cpu''"
    by (simp add: plain_def)
  from 1 2 pl' h host_ok_root join_cpu_host_ok Apply_host_ok show ?thesis by blast
qed

end
